theory Spec2Isabelle
  imports Complex_Main "HOL-Library.AList"
begin

section \<open>Values\<close>

text \<open>
  The cells of a pandas row are numpy float64 values. They are modelled as the reals
  extended by the two infinities and by NaN. The rounding error of float arithmetic and
  the sign of zero are not modelled: finite arithmetic is exact.
\<close>

datatype fl = NaN | NInf | Fin real | PInf

text \<open>Comparisons: every comparison with NaN is false.\<close>

fun fl_lt :: "fl \<Rightarrow> fl \<Rightarrow> bool" where
  "fl_lt NaN b = False"
| "fl_lt a NaN = False"
| "fl_lt (Fin a) (Fin b) = (a < b)"
| "fl_lt a NInf = False"
| "fl_lt NInf b = True"
| "fl_lt PInf b = False"
| "fl_lt a PInf = True"

fun fl_le :: "fl \<Rightarrow> fl \<Rightarrow> bool" where
  "fl_le NaN b = False"
| "fl_le a NaN = False"
| "fl_le (Fin a) (Fin b) = (a \<le> b)"
| "fl_le NInf b = True"
| "fl_le a PInf = True"
| "fl_le a NInf = False"
| "fl_le PInf b = False"

definition fl_gt :: "fl \<Rightarrow> fl \<Rightarrow> bool" where
  "fl_gt a b = fl_lt b a"

definition fl_ge :: "fl \<Rightarrow> fl \<Rightarrow> bool" where
  "fl_ge a b = fl_le b a"

text \<open>Arithmetic, with the IEEE results at the infinities, at NaN and at a zero divisor.\<close>

fun fl_neg :: "fl \<Rightarrow> fl" where
  "fl_neg NaN = NaN"
| "fl_neg NInf = PInf"
| "fl_neg (Fin a) = Fin (- a)"
| "fl_neg PInf = NInf"

fun fl_add :: "fl \<Rightarrow> fl \<Rightarrow> fl" where
  "fl_add NaN b = NaN"
| "fl_add a NaN = NaN"
| "fl_add (Fin a) (Fin b) = Fin (a + b)"
| "fl_add PInf NInf = NaN"
| "fl_add NInf PInf = NaN"
| "fl_add PInf b = PInf"
| "fl_add NInf b = NInf"
| "fl_add a PInf = PInf"
| "fl_add a NInf = NInf"

definition fl_sub :: "fl \<Rightarrow> fl \<Rightarrow> fl" where
  "fl_sub a b = fl_add a (fl_neg b)"

fun fl_mul :: "fl \<Rightarrow> fl \<Rightarrow> fl" where
  "fl_mul NaN b = NaN"
| "fl_mul a NaN = NaN"
| "fl_mul (Fin a) (Fin b) = Fin (a * b)"
| "fl_mul (Fin a) PInf = (if 0 < a then PInf else if a < 0 then NInf else NaN)"
| "fl_mul (Fin a) NInf = (if 0 < a then NInf else if a < 0 then PInf else NaN)"
| "fl_mul PInf (Fin b) = (if 0 < b then PInf else if b < 0 then NInf else NaN)"
| "fl_mul NInf (Fin b) = (if 0 < b then NInf else if b < 0 then PInf else NaN)"
| "fl_mul PInf PInf = PInf"
| "fl_mul PInf NInf = NInf"
| "fl_mul NInf PInf = NInf"
| "fl_mul NInf NInf = PInf"

fun fl_div :: "fl \<Rightarrow> fl \<Rightarrow> fl" where
  "fl_div NaN b = NaN"
| "fl_div a NaN = NaN"
| "fl_div (Fin a) (Fin b) =
     (if b \<noteq> 0 then Fin (a / b)
      else if 0 < a then PInf else if a < 0 then NInf else NaN)"
| "fl_div (Fin a) PInf = Fin 0"
| "fl_div (Fin a) NInf = Fin 0"
| "fl_div PInf (Fin b) = (if 0 \<le> b then PInf else NInf)"
| "fl_div NInf (Fin b) = (if 0 \<le> b then NInf else PInf)"
| "fl_div PInf PInf = NaN"
| "fl_div PInf NInf = NaN"
| "fl_div NInf PInf = NaN"
| "fl_div NInf NInf = NaN"

text \<open>
  \<^verbatim>\<open>round(x, 2)\<close>: the nearest multiple of 0.01, a tie going to the even neighbour.
  NaN and the infinities are returned as they are. The model rounds the exact value. On
  a numpy float64 the code computes \<^verbatim>\<open>rint(x * 100) / 100\<close> in double arithmetic, so
  where \<^verbatim>\<open>x * 100\<close> is within one rounding error of a tie the stored last digit can
  differ from the model's, and a magnitude above about 1.8e306 overflows to an infinity.
  Only the stored \<^verbatim>\<open>price\<close>, \<^verbatim>\<open>change_pct\<close> and per-indicator values are rounded this
  way; the properties below assert none of them at such an input.
\<close>

definition round_half_even :: "real \<Rightarrow> int" where
  "round_half_even x =
     (let f = \<lfloor>x\<rfloor>; d = x - of_int f
      in if d < 1/2 then f else if 1/2 < d then f + 1
         else if even f then f else f + 1)"

definition round2 :: "real \<Rightarrow> real" where
  "round2 x = of_int (round_half_even (x * 100)) / 100"

fun fl_round2 :: "fl \<Rightarrow> fl" where
  "fl_round2 (Fin a) = Fin (round2 a)"
| "fl_round2 a = a"

text \<open>The exceptions that the modelled code can raise.\<close>

datatype error = IndexError | ValueError | OverflowError

definition bind_err :: "error + 'a \<Rightarrow> ('a \<Rightarrow> error + 'b) \<Rightarrow> error + 'b" where
  "bind_err m f = (case m of Inl e \<Rightarrow> Inl e | Inr x \<Rightarrow> f x)"

text \<open>
  \<^verbatim>\<open>int(x)\<close> on a float: truncation towards zero; ValueError on NaN and OverflowError on
  an infinity.
\<close>

fun py_int :: "fl \<Rightarrow> error + int" where
  "py_int NaN = Inl ValueError"
| "py_int NInf = Inl OverflowError"
| "py_int PInf = Inl OverflowError"
| "py_int (Fin a) = Inr (if 0 \<le> a then \<lfloor>a\<rfloor> else \<lceil>a\<rceil>)"

text \<open>The values stored in the signal dictionaries.\<close>

datatype pyval = PFloat fl | PInt int | PBool bool | PStr string

text \<open>
  A local that holds a float on one path and a Python int on another, with the
  comparison \<^verbatim>\<open>x > c\<close> against a float and \<^verbatim>\<open>round(x, 2)\<close>, which returns an int for an
  int.
\<close>

datatype number = NFloat fl | NInt int

fun number_gt :: "number \<Rightarrow> fl \<Rightarrow> bool" where
  "number_gt (NFloat a) c = fl_gt a c"
| "number_gt (NInt n) c = fl_gt (Fin (of_int n)) c"

fun number_round2 :: "number \<Rightarrow> pyval" where
  "number_round2 (NFloat a) = PFloat (fl_round2 a)"
| "number_round2 (NInt n) = PInt n"

section \<open>Data frames\<close>

text \<open>
  A data frame is the list of its rows, oldest first. A \<open>bar\<close> is a row of the
  downloaded frame, with the index \<^verbatim>\<open>Date\<close>; a \<open>row\<close> has in addition the columns that
  \<^verbatim>\<open>calculate_technical_indicators\<close> adds.
\<close>

record bar =
  Date :: real
  Open :: fl
  High :: fl
  Low :: fl
  Close :: fl
  Volume :: fl

record row = bar +
  SMA20 :: fl
  SMA50 :: fl
  SMA200 :: fl
  EMA20 :: fl
  RSI :: fl
  MACD :: fl
  MACD_Signal :: fl
  MACD_Hist :: fl
  BB_Upper :: fl
  BB_Lower :: fl
  BB_Mid :: fl
  BB_Width :: fl
  OBV :: fl
  ADX :: fl
  Stoch_K :: fl
  Stoch_D :: fl
  ATR :: fl

text \<open>
  \<^verbatim>\<open>df.iloc[i]\<close>: a negative index counts from the end, and an index out of range
  raises IndexError.
\<close>

definition iloc :: "'a list \<Rightarrow> int \<Rightarrow> error + 'a" where
  "iloc rows i =
     (if 0 \<le> i \<and> i < int (length rows) then Inr (rows ! nat i)
      else if i < 0 \<and> - int (length rows) \<le> i then Inr (rows ! nat (int (length rows) + i))
      else Inl IndexError)"

text \<open>\<^verbatim>\<open>series.tail(n)\<close>: the last n values, all of them when there are fewer.\<close>

definition tail :: "nat \<Rightarrow> 'a list \<Rightarrow> 'a list" where
  "tail n xs = drop (length xs - n) xs"

text \<open>
  \<^verbatim>\<open>series.mean()\<close>: pandas skips NaN values, and the mean of no value is NaN.
\<close>

definition mean :: "fl list \<Rightarrow> fl" where
  "mean xs =
     (let ys = filter (\<lambda>x. x \<noteq> NaN) xs
      in if ys = [] then NaN
         else fl_div (foldl fl_add (Fin 0) ys) (Fin (real (length ys))))"

section \<open>Configuration\<close>

text \<open>The technical analysis parameters of the module.\<close>

definition SHORT_WINDOW :: nat where
  "SHORT_WINDOW = 20"

definition MEDIUM_WINDOW :: nat where
  "MEDIUM_WINDOW = 50"

definition LONG_WINDOW :: nat where
  "LONG_WINDOW = 200"

definition RSI_PERIOD :: nat where
  "RSI_PERIOD = 14"

definition RSI_OVERBOUGHT :: fl where
  "RSI_OVERBOUGHT = Fin 70"

definition RSI_OVERSOLD :: fl where
  "RSI_OVERSOLD = Fin 30"

definition MACD_FAST :: nat where
  "MACD_FAST = 12"

definition MACD_SLOW :: nat where
  "MACD_SLOW = 26"

definition MACD_SIGNAL :: nat where
  "MACD_SIGNAL = 9"

section \<open>calculate_technical_indicators\<close>

text \<open>
  The indicator functions of the package \<^verbatim>\<open>ta\<close> are not part of the sources. They are a
  parameter of the model: each takes the columns and window lengths that
  \<^verbatim>\<open>calculate_technical_indicators\<close> passes and returns a column, or raises. The
  Bollinger, MACD and stochastic objects are represented by the columns that their methods
  return.
\<close>

record ta =
  sma_indicator :: "fl list \<Rightarrow> nat \<Rightarrow> error + fl list"
  ema_indicator :: "fl list \<Rightarrow> nat \<Rightarrow> error + fl list"
  rsi :: "fl list \<Rightarrow> nat \<Rightarrow> error + fl list"
  macd :: "fl list \<Rightarrow> nat \<Rightarrow> nat \<Rightarrow> nat \<Rightarrow> error + fl list"
  macd_signal :: "fl list \<Rightarrow> nat \<Rightarrow> nat \<Rightarrow> nat \<Rightarrow> error + fl list"
  macd_diff :: "fl list \<Rightarrow> nat \<Rightarrow> nat \<Rightarrow> nat \<Rightarrow> error + fl list"
  bollinger_hband :: "fl list \<Rightarrow> nat \<Rightarrow> nat \<Rightarrow> error + fl list"
  bollinger_lband :: "fl list \<Rightarrow> nat \<Rightarrow> nat \<Rightarrow> error + fl list"
  bollinger_mavg :: "fl list \<Rightarrow> nat \<Rightarrow> nat \<Rightarrow> error + fl list"
  on_balance_volume :: "fl list \<Rightarrow> fl list \<Rightarrow> error + fl list"
  adx :: "fl list \<Rightarrow> fl list \<Rightarrow> fl list \<Rightarrow> nat \<Rightarrow> error + fl list"
  stoch :: "fl list \<Rightarrow> fl list \<Rightarrow> fl list \<Rightarrow> nat \<Rightarrow> nat \<Rightarrow> error + fl list"
  stoch_signal :: "fl list \<Rightarrow> fl list \<Rightarrow> fl list \<Rightarrow> nat \<Rightarrow> nat \<Rightarrow> error + fl list"
  average_true_range :: "fl list \<Rightarrow> fl list \<Rightarrow> fl list \<Rightarrow> nat \<Rightarrow> error + fl list"

text \<open>
  \<^verbatim>\<open>df[name] = column\<close>: the cell of a column at a position of the frame, NaN where the
  column has no value for it.
\<close>

definition cell :: "fl list \<Rightarrow> nat \<Rightarrow> fl" where
  "cell col i = (if i < length col then col ! i else NaN)"

definition calculate_technical_indicators :: "ta \<Rightarrow> bar list option \<Rightarrow> error + row list option" where
  "calculate_technical_indicators lib data =
     (case data of
        None \<Rightarrow> Inr None
      | Some df \<Rightarrow>
          if df = [] then Inr None
          else
            let close = map Close df; high = map High df; low = map Low df;
                volume = map Volume df
            in
            bind_err (sma_indicator lib close SHORT_WINDOW) (\<lambda>sma20.
            bind_err (sma_indicator lib close MEDIUM_WINDOW) (\<lambda>sma50.
            bind_err (sma_indicator lib close LONG_WINDOW) (\<lambda>sma200.
            bind_err (ema_indicator lib close SHORT_WINDOW) (\<lambda>ema20.
            bind_err (rsi lib close RSI_PERIOD) (\<lambda>rsi14.
            bind_err (macd lib close MACD_FAST MACD_SLOW MACD_SIGNAL) (\<lambda>macd_line.
            bind_err (macd_signal lib close MACD_FAST MACD_SLOW MACD_SIGNAL) (\<lambda>macd_sig.
            bind_err (macd_diff lib close MACD_FAST MACD_SLOW MACD_SIGNAL) (\<lambda>macd_hist.
            bind_err (bollinger_hband lib close 20 2) (\<lambda>bb_upper.
            bind_err (bollinger_lband lib close 20 2) (\<lambda>bb_lower.
            bind_err (bollinger_mavg lib close 20 2) (\<lambda>bb_mid.
            bind_err (on_balance_volume lib close volume) (\<lambda>obv.
            bind_err (adx lib high low close 14) (\<lambda>adx14.
            bind_err (stoch lib high low close 14 3) (\<lambda>stoch_k.
            bind_err (stoch_signal lib high low close 14 3) (\<lambda>stoch_d.
            bind_err (average_true_range lib high low close 14) (\<lambda>atr.
            Inr (Some (map (\<lambda>i.
              \<lparr>Date = Date (df ! i), Open = Open (df ! i), High = High (df ! i),
               Low = Low (df ! i), Close = Close (df ! i), Volume = Volume (df ! i),
               SMA20 = cell sma20 i, SMA50 = cell sma50 i, SMA200 = cell sma200 i,
               EMA20 = cell ema20 i, RSI = cell rsi14 i, MACD = cell macd_line i,
               MACD_Signal = cell macd_sig i, MACD_Hist = cell macd_hist i,
               BB_Upper = cell bb_upper i, BB_Lower = cell bb_lower i, BB_Mid = cell bb_mid i,
               BB_Width = fl_div (fl_sub (cell bb_upper i) (cell bb_lower i)) (cell bb_mid i),
               OBV = cell obv i, ADX = cell adx14 i, Stoch_K = cell stoch_k i,
               Stoch_D = cell stoch_d i, ATR = cell atr i\<rparr>)
              [0..<length df])))))))))))))))))))"

section \<open>The signal dictionary\<close>

text \<open>
  A Python dictionary is an association list in insertion order: \<open>AList.update\<close> is
  \<^verbatim>\<open>d[k] = v\<close> (in place for a key that is present, at the end otherwise) and
  \<open>map_of\<close> is the lookup.
\<close>

type_synonym subsignal = "(string \<times> pyval) list"

record signal =
  symbol :: string
  price :: fl
  change_pct :: pyval
  indicators :: "(string \<times> subsignal) list"
  overall_signal :: string
  signal_strength :: real

text \<open>
  The state of \<^verbatim>\<open>generate_signals\<close> while the rules run: the dictionary \<^verbatim>\<open>signals\<close>
  and the locals \<^verbatim>\<open>score\<close> and \<^verbatim>\<open>signal_count\<close>.
\<close>

record scoring =
  signals :: signal
  score :: real
  signal_count :: nat

definition set_indicator :: "string \<Rightarrow> subsignal \<Rightarrow> scoring \<Rightarrow> scoring" where
  \<comment> \<open>\<^verbatim>\<open>signals['indicators'][name] = sub\<close>\<close>
  "set_indicator name sub st =
     st\<lparr>signals := (signals st)\<lparr>indicators :=
          AList.update name sub (indicators (signals st))\<rparr>\<rparr>"

definition set_indicator_signal :: "string \<Rightarrow> string \<Rightarrow> scoring \<Rightarrow> scoring" where
  \<comment> \<open>\<^verbatim>\<open>signals['indicators'][name]['signal'] = kind\<close>; the source writes it only to an
      entry that the statement before has stored, so the lookup cannot raise\<close>
  "set_indicator_signal name kind st =
     st\<lparr>signals := (signals st)\<lparr>indicators :=
          AList.map_entry name (AList.update ''signal'' (PStr kind))
            (indicators (signals st))\<rparr>\<rparr>"

definition add_score :: "real \<Rightarrow> scoring \<Rightarrow> scoring" where
  "add_score d st = st\<lparr>score := score st + d\<rparr>"

definition count_signal :: "scoring \<Rightarrow> scoring" where
  "count_signal st = st\<lparr>signal_count := signal_count st + 1\<rparr>"

definition has_indicator :: "signal \<Rightarrow> string \<Rightarrow> bool" where
  \<comment> \<open>\<^verbatim>\<open>name in signals['indicators']\<close>\<close>
  "has_indicator s name = (name \<in> fst ` set (indicators s))"

definition lookup :: "signal \<Rightarrow> string \<Rightarrow> subsignal option" where
  \<comment> \<open>\<^verbatim>\<open>signals['indicators'].get(name)\<close>\<close>
  "lookup s name = map_of (indicators s) name"

section \<open>The rules of generate_signals\<close>

definition rule_sma20 :: "row \<Rightarrow> scoring \<Rightarrow> scoring" where
  "rule_sma20 current st =
     count_signal
       (if fl_gt (Close current) (SMA20 current)
        then add_score 0.5 (set_indicator ''sma20''
               [(''signal'', PStr ''bullish''), (''value'', PFloat (fl_round2 (SMA20 current)))] st)
        else add_score (- 0.5) (set_indicator ''sma20''
               [(''signal'', PStr ''bearish''), (''value'', PFloat (fl_round2 (SMA20 current)))] st))"

definition rule_sma50 :: "row \<Rightarrow> scoring \<Rightarrow> scoring" where
  "rule_sma50 current st =
     count_signal
       (if fl_gt (Close current) (SMA50 current)
        then add_score 1 (set_indicator ''sma50''
               [(''signal'', PStr ''bullish''), (''value'', PFloat (fl_round2 (SMA50 current)))] st)
        else add_score (- 1) (set_indicator ''sma50''
               [(''signal'', PStr ''bearish''), (''value'', PFloat (fl_round2 (SMA50 current)))] st))"

definition rule_sma200 :: "row \<Rightarrow> scoring \<Rightarrow> scoring" where
  "rule_sma200 current st =
     count_signal
       (if fl_gt (Close current) (SMA200 current)
        then add_score 1.5 (set_indicator ''sma200''
               [(''signal'', PStr ''bullish''), (''value'', PFloat (fl_round2 (SMA200 current)))] st)
        else add_score (- 1.5) (set_indicator ''sma200''
               [(''signal'', PStr ''bearish''), (''value'', PFloat (fl_round2 (SMA200 current)))] st))"

definition rule_cross :: "row option \<Rightarrow> row \<Rightarrow> scoring \<Rightarrow> scoring" where
  \<comment> \<open>golden and death cross\<close>
  "rule_cross previous current st =
     (case previous of
        None \<Rightarrow> st
      | Some prev \<Rightarrow>
          if fl_le (SMA50 prev) (SMA200 prev) \<and> fl_gt (SMA50 current) (SMA200 current)
          then count_signal (add_score 2 (set_indicator ''golden_cross''
                 [(''signal'', PStr ''bullish''), (''value'', PBool True)] st))
          else if fl_ge (SMA50 prev) (SMA200 prev) \<and> fl_lt (SMA50 current) (SMA200 current)
          then count_signal (add_score (- 2) (set_indicator ''death_cross''
                 [(''signal'', PStr ''bearish''), (''value'', PBool True)] st))
          else st)"

definition rule_rsi :: "row \<Rightarrow> scoring \<Rightarrow> scoring" where
  "rule_rsi current st =
     (let st1 = set_indicator ''rsi''
                  [(''signal'', PStr ''neutral''), (''value'', PFloat (fl_round2 (RSI current)))] st
      in count_signal
           (if fl_lt (RSI current) RSI_OVERSOLD
            then add_score 1.5 (set_indicator_signal ''rsi'' ''oversold'' st1)
            else if fl_gt (RSI current) RSI_OVERBOUGHT
            then add_score (- 1.5) (set_indicator_signal ''rsi'' ''overbought'' st1)
            else st1))"

definition rule_macd :: "row \<Rightarrow> scoring \<Rightarrow> scoring" where
  "rule_macd current st =
     count_signal
       (if fl_gt (MACD current) (MACD_Signal current)
        then add_score 1 (set_indicator ''macd''
               [(''signal'', PStr ''bullish''), (''value'', PFloat (fl_round2 (MACD current)))] st)
        else add_score (- 1) (set_indicator ''macd''
               [(''signal'', PStr ''bearish''), (''value'', PFloat (fl_round2 (MACD current)))] st))"

definition rule_macd_crossover :: "row option \<Rightarrow> row \<Rightarrow> scoring \<Rightarrow> scoring" where
  "rule_macd_crossover previous current st =
     (case previous of
        None \<Rightarrow> st
      | Some prev \<Rightarrow>
          if fl_le (MACD prev) (MACD_Signal prev) \<and> fl_gt (MACD current) (MACD_Signal current)
          then count_signal (add_score 1.5 (set_indicator ''macd_crossover''
                 [(''signal'', PStr ''bullish''), (''value'', PBool True)] st))
          else if fl_ge (MACD prev) (MACD_Signal prev) \<and> fl_lt (MACD current) (MACD_Signal current)
          then count_signal (add_score (- 1.5) (set_indicator ''macd_crossover''
                 [(''signal'', PStr ''bearish''), (''value'', PBool True)] st))
          else st)"

definition bb_position :: "row \<Rightarrow> fl" where
  "bb_position current =
     (if fl_gt (fl_sub (BB_Upper current) (BB_Lower current)) (Fin 0)
      then fl_div (fl_sub (Close current) (BB_Lower current))
                  (fl_sub (BB_Upper current) (BB_Lower current))
      else Fin 0.5)"

definition rule_bollinger :: "row \<Rightarrow> scoring \<Rightarrow> scoring" where
  "rule_bollinger current st =
     (let st1 = set_indicator ''bollinger''
                  [(''signal'', PStr ''neutral''),
                   (''value'', PFloat (fl_round2 (bb_position current))),
                   (''width'', PFloat (fl_round2 (BB_Width current)))] st
      in count_signal
           (if fl_gt (bb_position current) (Fin 0.95)
            then add_score (- 1) (set_indicator_signal ''bollinger'' ''overbought'' st1)
            else if fl_lt (bb_position current) (Fin 0.05)
            then add_score 1 (set_indicator_signal ''bollinger'' ''oversold'' st1)
            else st1))"

definition rule_adx :: "row \<Rightarrow> scoring \<Rightarrow> scoring" where
  \<comment> \<open>trend strength: no score and no count\<close>
  "rule_adx current st =
     (let st1 = set_indicator ''adx''
                  [(''signal'', PStr ''neutral''), (''value'', PFloat (fl_round2 (ADX current)))] st
      in if fl_gt (ADX current) (Fin 25) then set_indicator_signal ''adx'' ''strong_trend'' st1
         else if fl_lt (ADX current) (Fin 20) then set_indicator_signal ''adx'' ''weak_trend'' st1
         else st1)"

definition rule_stochastic :: "row \<Rightarrow> scoring \<Rightarrow> scoring" where
  "rule_stochastic current st =
     (let st1 = set_indicator ''stochastic''
                  [(''signal'', PStr ''neutral''),
                   (''k_value'', PFloat (fl_round2 (Stoch_K current))),
                   (''d_value'', PFloat (fl_round2 (Stoch_D current)))] st
      in count_signal
           (if fl_lt (Stoch_K current) (Fin 20) \<and> fl_lt (Stoch_D current) (Fin 20)
            then add_score 1 (set_indicator_signal ''stochastic'' ''oversold'' st1)
            else if fl_gt (Stoch_K current) (Fin 80) \<and> fl_gt (Stoch_D current) (Fin 80)
            then add_score (- 1) (set_indicator_signal ''stochastic'' ''overbought'' st1)
            else st1))"

definition volume_ratio :: "row list \<Rightarrow> row \<Rightarrow> number" where
  "volume_ratio rows current =
     (let recent_volume_avg = mean (tail 5 (map Volume rows))
      in if fl_gt recent_volume_avg (Fin 0)
         then NFloat (fl_div (Volume current) recent_volume_avg)
         else NInt 1)"

definition rule_volume :: "row list \<Rightarrow> row \<Rightarrow> scoring \<Rightarrow> error + scoring" where
  \<comment> \<open>\<^verbatim>\<open>int(current['Volume'])\<close> and \<^verbatim>\<open>df.iloc[-2]\<close> can raise\<close>
  "rule_volume rows current st =
     bind_err (py_int (Volume current)) (\<lambda>v.
       let st1 = set_indicator ''volume''
                   [(''signal'', PStr ''neutral''), (''value'', PInt v),
                    (''ratio'', number_round2 (volume_ratio rows current))] st
       in bind_err
            (if number_gt (volume_ratio rows current) (Fin 1.5)
             then bind_err (iloc rows (- 2)) (\<lambda>p.
                    Inr (if fl_gt (Close current) (Close p)
                         then add_score 0.5 (set_indicator_signal ''volume'' ''high'' st1)
                         else add_score (- 0.5) (set_indicator_signal ''volume'' ''high'' st1)))
             else Inr st1)
            (\<lambda>st2. Inr (count_signal st2)))"

section \<open>generate_signals\<close>

definition initial :: "string \<Rightarrow> fl \<Rightarrow> pyval \<Rightarrow> scoring" where
  \<comment> \<open>the dictionary \<^verbatim>\<open>signals\<close> as first built, \<^verbatim>\<open>score = 0\<close>, \<^verbatim>\<open>signal_count = 0\<close>\<close>
  "initial symb p chg =
     \<lparr>signals = \<lparr>symbol = symb, price = p, change_pct = chg, indicators = [],
                 overall_signal = ''neutral'', signal_strength = 0\<rparr>,
      score = 0, signal_count = 0\<rparr>"

definition run_rules :: "row list \<Rightarrow> row option \<Rightarrow> row \<Rightarrow> scoring \<Rightarrow> error + scoring" where
  "run_rules rows previous current st0 =
     (let st1 = rule_sma20 current st0;
          st2 = rule_sma50 current st1;
          st3 = rule_sma200 current st2;
          st4 = rule_cross previous current st3;
          st5 = rule_rsi current st4;
          st6 = rule_macd current st5;
          st7 = rule_macd_crossover previous current st6;
          st8 = rule_bollinger current st7;
          st9 = rule_adx current st8;
          st10 = rule_stochastic current st9
      in rule_volume rows current st10)"

definition evaluate :: "row list \<Rightarrow> string \<Rightarrow> error + scoring" where
  \<comment> \<open>the body of \<^verbatim>\<open>generate_signals\<close> up to the last rule, on a frame that is not empty\<close>
  "evaluate rows symb =
     bind_err (iloc rows (- 1)) (\<lambda>current.
     bind_err (if 1 < length rows then bind_err (iloc rows (- 2)) (\<lambda>p. Inr (Some p))
               else Inr None) (\<lambda>previous.
     bind_err (if previous \<noteq> None
               then bind_err (iloc rows (- 2)) (\<lambda>p.
                      Inr (PFloat (fl_round2
                        (fl_mul (fl_sub (fl_div (Close current) (Close p)) (Fin 1)) (Fin 100)))))
               else Inr (PInt 0)) (\<lambda>chg.
     run_rules rows previous current (initial symb (fl_round2 (Close current)) chg))))"

definition normalized_score :: "scoring \<Rightarrow> real" where
  "normalized_score st =
     (if 0 < signal_count st
      then max (min (score st / (real (signal_count st) * 0.75)) 2) (- 2)
      else 0)"

definition label :: "real \<Rightarrow> string" where
  "label n =
     (if 1.5 < n then ''strong_buy''
      else if 0.5 < n then ''buy''
      else if - 0.5 < n then ''neutral''
      else if - 1.5 < n then ''sell''
      else ''strong_sell'')"

definition finish :: "scoring \<Rightarrow> signal" where
  "finish st =
     (signals st)\<lparr>overall_signal := label (normalized_score st),
                  signal_strength := round2 (normalized_score st)\<rparr>"

definition generate_signals :: "row list option \<Rightarrow> string \<Rightarrow> error + signal option" where
  "generate_signals df symb =
     (case df of
        None \<Rightarrow> Inr None
      | Some rows \<Rightarrow>
          if rows = [] then Inr None
          else bind_err (evaluate rows symb) (\<lambda>st. Inr (Some (finish st))))"

section \<open>The tracking list\<close>

text \<open>
  The module-level list \<^verbatim>\<open>STOCK_SYMBOLS\<close> is the state of \<^verbatim>\<open>add_stock\<close> and
  \<^verbatim>\<open>remove_stock\<close>: each takes the list and returns the new list with its result.
\<close>

definition STOCK_SYMBOLS :: "string list" where
  "STOCK_SYMBOLS = [''AAPL'', ''MSFT'', ''GOOGL'', ''AMZN'', ''META'', ''TSLA'', ''NVDA'']"

definition list_remove :: "'a \<Rightarrow> 'a list \<Rightarrow> error + 'a list" where
  \<comment> \<open>\<^verbatim>\<open>xs.remove(x)\<close>: deletes the first occurrence, ValueError when there is none\<close>
  "list_remove x xs = (if x \<in> set xs then Inr (remove1 x xs) else Inl ValueError)"

definition add_stock :: "string \<Rightarrow> string list \<Rightarrow> error + string list \<times> bool" where
  "add_stock symb syms =
     (if symb \<notin> set syms then Inr (syms @ [symb], True) else Inr (syms, False))"

definition remove_stock :: "string \<Rightarrow> string list \<Rightarrow> error + string list \<times> bool" where
  "remove_stock symb syms =
     (if symb \<in> set syms
      then bind_err (list_remove symb syms) (\<lambda>syms'. Inr (syms', True))
      else Inr (syms, False))"

text \<open>The lists that calls of the two functions can produce from the configured one.\<close>

inductive tracked :: "string list \<Rightarrow> bool" where
  configured: "tracked STOCK_SYMBOLS"
| added: "tracked syms \<Longrightarrow> add_stock symb syms = Inr (syms', r) \<Longrightarrow> tracked syms'"
| removed: "tracked syms \<Longrightarrow> remove_stock symb syms = Inr (syms', r) \<Longrightarrow> tracked syms'"

section \<open>Auxiliary notions for the properties\<close>

text \<open>
  The conditions under which the two crossover rules store an entry, as the branches of
  \<open>rule_cross\<close> and \<open>rule_macd_crossover\<close> test them.
\<close>

definition golden_fires :: "row option \<Rightarrow> row \<Rightarrow> bool" where
  "golden_fires previous current =
     (case previous of None \<Rightarrow> False
      | Some prev \<Rightarrow> fl_le (SMA50 prev) (SMA200 prev) \<and> fl_gt (SMA50 current) (SMA200 current))"

definition death_fires :: "row option \<Rightarrow> row \<Rightarrow> bool" where
  "death_fires previous current =
     (case previous of None \<Rightarrow> False
      | Some prev \<Rightarrow> \<not> golden_fires previous current \<and>
          fl_ge (SMA50 prev) (SMA200 prev) \<and> fl_lt (SMA50 current) (SMA200 current))"

definition macd_crossover_fires :: "row option \<Rightarrow> row \<Rightarrow> bool" where
  "macd_crossover_fires previous current =
     (case previous of None \<Rightarrow> False
      | Some prev \<Rightarrow>
          (fl_le (MACD prev) (MACD_Signal prev) \<and> fl_gt (MACD current) (MACD_Signal current)) \<or>
          (fl_ge (MACD prev) (MACD_Signal prev) \<and> fl_lt (MACD current) (MACD_Signal current)))"

text \<open>The number of crossover rules that fire on an evaluation.\<close>

definition crossovers :: "row option \<Rightarrow> row \<Rightarrow> nat" where
  "crossovers p c =
     (if golden_fires p c \<or> death_fires p c then 1 else 0) +
     (if macd_crossover_fires p c then 1 else 0)"

text \<open>
  The row that \<^verbatim>\<open>generate_signals\<close> binds to \<^verbatim>\<open>previous\<close>, and the value it stores
  as \<^verbatim>\<open>change_pct\<close>, as functions of the frame.
\<close>

definition previous_of :: "row list \<Rightarrow> row option" where
  "previous_of rows = (if 1 < length rows then Some (rows ! (length rows - 2)) else None)"

definition change_of :: "row list \<Rightarrow> pyval" where
  "change_of rows =
     (if 1 < length rows
      then PFloat (fl_round2 (fl_mul (fl_sub (fl_div (Close (last rows))
             (Close (rows ! (length rows - 2)))) (Fin 1)) (Fin 100)))
      else PInt 0)"

text \<open>The number of crossover entries in a signal's mapping.\<close>

definition crossovers_fired :: "signal \<Rightarrow> nat" where
  "crossovers_fired s =
     (if has_indicator s ''golden_cross'' \<or> has_indicator s ''death_cross'' then 1 else 0) +
     (if has_indicator s ''macd_crossover'' then 1 else 0)"

text \<open>
  The calls that \<^verbatim>\<open>calculate_technical_indicators\<close> makes into the library on a frame,
  in the order of the source.
\<close>

definition library_calls :: "ta \<Rightarrow> bar list \<Rightarrow> (error + fl list) list" where
  "library_calls lib df =
     (let close = map Close df; high = map High df; low = map Low df; volume = map Volume df
      in [sma_indicator lib close SHORT_WINDOW,
          sma_indicator lib close MEDIUM_WINDOW,
          sma_indicator lib close LONG_WINDOW,
          ema_indicator lib close SHORT_WINDOW,
          rsi lib close RSI_PERIOD,
          macd lib close MACD_FAST MACD_SLOW MACD_SIGNAL,
          macd_signal lib close MACD_FAST MACD_SLOW MACD_SIGNAL,
          macd_diff lib close MACD_FAST MACD_SLOW MACD_SIGNAL,
          bollinger_hband lib close 20 2,
          bollinger_lband lib close 20 2,
          bollinger_mavg lib close 20 2,
          on_balance_volume lib close volume,
          adx lib high low close 14,
          stoch lib high low close 14 3,
          stoch_signal lib high low close 14 3,
          average_true_range lib high low close 14])"

text \<open>The bar that a row of the annotated frame carries.\<close>

definition bar_of :: "row \<Rightarrow> bar" where
  "bar_of r =
     \<lparr>Date = Date r, Open = Open r, High = High r, Low = Low r, Close = Close r,
      Volume = Volume r\<rparr>"

text \<open>The engine gives no annotated series: it raises or returns \<^verbatim>\<open>None\<close>.\<close>

definition engine_fails :: "error + row list option \<Rightarrow> bool" where
  "engine_fails r = (case r of Inl e \<Rightarrow> True | Inr None \<Rightarrow> True | Inr (Some rows) \<Rightarrow> False)"

text \<open>
  The amount that each rule adds to \<^verbatim>\<open>score\<close>, as a function of the rows: the branches
  of the rule with the score steps they take. In the volume rule a high ratio with no
  previous row makes the code raise, so that the step is never added there.
\<close>

definition delta_sma20 :: "row \<Rightarrow> real" where
  "delta_sma20 c = (if fl_gt (Close c) (SMA20 c) then 0.5 else - 0.5)"

definition delta_sma50 :: "row \<Rightarrow> real" where
  "delta_sma50 c = (if fl_gt (Close c) (SMA50 c) then 1 else - 1)"

definition delta_sma200 :: "row \<Rightarrow> real" where
  "delta_sma200 c = (if fl_gt (Close c) (SMA200 c) then 1.5 else - 1.5)"

definition delta_cross :: "row option \<Rightarrow> row \<Rightarrow> real" where
  "delta_cross p c = (if golden_fires p c then 2 else if death_fires p c then - 2 else 0)"

definition delta_rsi :: "row \<Rightarrow> real" where
  "delta_rsi c =
     (if fl_lt (RSI c) RSI_OVERSOLD then 1.5
      else if fl_gt (RSI c) RSI_OVERBOUGHT then - 1.5 else 0)"

definition delta_macd :: "row \<Rightarrow> real" where
  "delta_macd c = (if fl_gt (MACD c) (MACD_Signal c) then 1 else - 1)"

definition delta_macd_crossover :: "row option \<Rightarrow> row \<Rightarrow> real" where
  "delta_macd_crossover p c =
     (case p of
        None \<Rightarrow> 0
      | Some prev \<Rightarrow>
          if fl_le (MACD prev) (MACD_Signal prev) \<and> fl_gt (MACD c) (MACD_Signal c) then 1.5
          else if fl_ge (MACD prev) (MACD_Signal prev) \<and> fl_lt (MACD c) (MACD_Signal c)
          then - 1.5 else 0)"

definition delta_bollinger :: "row \<Rightarrow> real" where
  "delta_bollinger c =
     (if fl_gt (bb_position c) (Fin 0.95) then - 1
      else if fl_lt (bb_position c) (Fin 0.05) then 1 else 0)"

definition delta_stochastic :: "row \<Rightarrow> real" where
  "delta_stochastic c =
     (if fl_lt (Stoch_K c) (Fin 20) \<and> fl_lt (Stoch_D c) (Fin 20) then 1
      else if fl_gt (Stoch_K c) (Fin 80) \<and> fl_gt (Stoch_D c) (Fin 80) then - 1 else 0)"

definition delta_volume :: "row list \<Rightarrow> row \<Rightarrow> real" where
  "delta_volume rows c =
     (if number_gt (volume_ratio rows c) (Fin 1.5)
      then (case previous_of rows of
              None \<Rightarrow> 0
            | Some p \<Rightarrow> if fl_gt (Close c) (Close p) then 0.5 else - 0.5)
      else 0)"

section \<open>Statements of the specification\<close>

text \<open>
  The normalized score as the spec states it: nine rules that always count, plus one for
  each crossover rule that fired.
\<close>

definition spec_normalized :: "scoring \<Rightarrow> real" where
  "spec_normalized st =
     max (min (score st / (real (9 + crossovers_fired (signals st)) * 0.75)) 2) (- 2)"

text \<open>
  The malformed inputs in the words of the spec: an empty series, timestamps that are not
  strictly ascending, or a price that is not positive.
\<close>

definition spec_malformed :: "bar list \<Rightarrow> bool" where
  "spec_malformed df =
     (df = [] \<or> \<not> sorted_wrt (<) (map Date df) \<or>
      list_ex (\<lambda>b. \<not> (fl_gt (Open b) (Fin 0) \<and> fl_gt (High b) (Fin 0) \<and>
                      fl_gt (Low b) (Fin 0) \<and> fl_gt (Close b) (Fin 0))) df)"

text \<open>
  Modelled from the spec: the Bollinger bands, which the source takes from the indicator
  library. The spec (section 4.1) gives BB_Mid as SMA(20), the arithmetic mean of close
  over the trailing 20 bars and undefined for a bar index below 19, and BB_Upper and
  BB_Lower as BB_Mid plus and minus twice the population standard deviation of close over
  the same 20 bars.
\<close>

definition window :: "nat \<Rightarrow> real list \<Rightarrow> nat \<Rightarrow> real list" where
  \<comment> \<open>the trailing w values at bar i\<close>
  "window w xs i = take w (drop (i + 1 - w) xs)"

definition average :: "real list \<Rightarrow> real" where
  "average ws = sum_list ws / real (length ws)"


definition spec_bb_mid :: "real list \<Rightarrow> nat \<Rightarrow> fl" where
  \<comment> \<open>Modelled from the spec: BB_Mid of Bollinger(20, 2) at bar i\<close>
  "spec_bb_mid xs i = (if i + 1 < 20 then NaN else Fin (average (window 20 xs i)))"



section \<open>Concrete inputs\<close>

text \<open>
  A series of one bar, on which every indicator is undefined, with the state after the
  last rule and the signal that \<^verbatim>\<open>generate_signals\<close> returns for it.
\<close>

definition example_bar :: row where
  "example_bar =
     \<lparr>Date = 0, Open = Fin 100, High = Fin 101, Low = Fin 99, Close = Fin 100,
      Volume = Fin 1000000, SMA20 = NaN, SMA50 = NaN, SMA200 = NaN, EMA20 = NaN, RSI = NaN,
      MACD = NaN, MACD_Signal = NaN, MACD_Hist = NaN, BB_Upper = NaN, BB_Lower = NaN,
      BB_Mid = NaN, BB_Width = NaN, OBV = Fin 1000000, ADX = NaN, Stoch_K = NaN,
      Stoch_D = NaN, ATR = NaN\<rparr>"

definition example_indicators :: "(string \<times> subsignal) list" where
  "example_indicators =
     [(''sma20'', [(''signal'', PStr ''bearish''), (''value'', PFloat NaN)]),
      (''sma50'', [(''signal'', PStr ''bearish''), (''value'', PFloat NaN)]),
      (''sma200'', [(''signal'', PStr ''bearish''), (''value'', PFloat NaN)]),
      (''rsi'', [(''signal'', PStr ''neutral''), (''value'', PFloat NaN)]),
      (''macd'', [(''signal'', PStr ''bearish''), (''value'', PFloat NaN)]),
      (''bollinger'', [(''signal'', PStr ''neutral''), (''value'', PFloat (Fin 0.5)),
                       (''width'', PFloat NaN)]),
      (''adx'', [(''signal'', PStr ''neutral''), (''value'', PFloat NaN)]),
      (''stochastic'', [(''signal'', PStr ''neutral''), (''k_value'', PFloat NaN),
                        (''d_value'', PFloat NaN)]),
      (''volume'', [(''signal'', PStr ''neutral''), (''value'', PInt 1000000),
                    (''ratio'', PFloat (Fin 1))])]"

definition example_scoring :: scoring where
  "example_scoring =
     \<lparr>signals = \<lparr>symbol = ''AAPL'', price = Fin 100, change_pct = PInt 0,
                 indicators = example_indicators, overall_signal = ''neutral'',
                 signal_strength = 0\<rparr>,
      score = - 4, signal_count = 8\<rparr>"

definition example_signal :: signal where
  "example_signal =
     \<lparr>symbol = ''AAPL'', price = Fin 100, change_pct = PInt 0,
      indicators = example_indicators, overall_signal = ''sell'',
      signal_strength = - 0.67\<rparr>"

text \<open>
  Two rows on which every rule fires upwards: the golden cross and the bullish MACD
  crossover fall on the last bar.
\<close>

definition cross_previous :: row where
  "cross_previous =
     \<lparr>Date = 0, Open = Fin 100, High = Fin 101, Low = Fin 99, Close = Fin 100,
      Volume = Fin 1000000, SMA20 = Fin 98, SMA50 = Fin 99, SMA200 = Fin 100, EMA20 = Fin 98,
      RSI = Fin 40, MACD = Fin (- 1), MACD_Signal = Fin 0, MACD_Hist = Fin (- 1),
      BB_Upper = Fin 110, BB_Lower = Fin 90, BB_Mid = Fin 100, BB_Width = Fin 0.2,
      OBV = Fin 1000000, ADX = Fin 30, Stoch_K = Fin 50, Stoch_D = Fin 50, ATR = Fin 2\<rparr>"

definition cross_current :: row where
  "cross_current =
     \<lparr>Date = 1, Open = Fin 100, High = Fin 111, Low = Fin 100, Close = Fin 110,
      Volume = Fin 4000000, SMA20 = Fin 105, SMA50 = Fin 101, SMA200 = Fin 100,
      EMA20 = Fin 105, RSI = Fin 25, MACD = Fin 1, MACD_Signal = Fin 0, MACD_Hist = Fin 1,
      BB_Upper = Fin 120, BB_Lower = Fin 110, BB_Mid = Fin 115, BB_Width = Fin 0.08,
      OBV = Fin 5000000, ADX = Fin 30, Stoch_K = Fin 10, Stoch_D = Fin 15, ATR = Fin 3\<rparr>"

definition cross_indicators :: "(string \<times> subsignal) list" where
  "cross_indicators =
     [(''sma20'', [(''signal'', PStr ''bullish''), (''value'', PFloat (Fin 105))]),
      (''sma50'', [(''signal'', PStr ''bullish''), (''value'', PFloat (Fin 101))]),
      (''sma200'', [(''signal'', PStr ''bullish''), (''value'', PFloat (Fin 100))]),
      (''golden_cross'', [(''signal'', PStr ''bullish''), (''value'', PBool True)]),
      (''rsi'', [(''signal'', PStr ''oversold''), (''value'', PFloat (Fin 25))]),
      (''macd'', [(''signal'', PStr ''bullish''), (''value'', PFloat (Fin 1))]),
      (''macd_crossover'', [(''signal'', PStr ''bullish''), (''value'', PBool True)]),
      (''bollinger'', [(''signal'', PStr ''oversold''), (''value'', PFloat (Fin 0)),
                       (''width'', PFloat (Fin 0.08))]),
      (''adx'', [(''signal'', PStr ''strong_trend''), (''value'', PFloat (Fin 30))]),
      (''stochastic'', [(''signal'', PStr ''oversold''), (''k_value'', PFloat (Fin 10)),
                        (''d_value'', PFloat (Fin 15))]),
      (''volume'', [(''signal'', PStr ''high''), (''value'', PInt 4000000),
                    (''ratio'', PFloat (Fin 1.6))])]"

definition cross_scoring :: scoring where
  "cross_scoring =
     \<lparr>signals = \<lparr>symbol = ''AAPL'', price = Fin 110, change_pct = PFloat (Fin 10),
                 indicators = cross_indicators, overall_signal = ''neutral'',
                 signal_strength = 0\<rparr>,
      score = 11.5, signal_count = 10\<rparr>"

definition cross_signal :: signal where
  "cross_signal =
     \<lparr>symbol = ''AAPL'', price = Fin 110, change_pct = PFloat (Fin 10),
      indicators = cross_indicators, overall_signal = ''strong_buy'',
      signal_strength = 1.53\<rparr>"


text \<open>
  A stand-in for the library whose functions return a column of undefined values of the
  length of their input and never raise.
\<close>

definition quiet_ta :: ta where
  "quiet_ta =
     \<lparr>sma_indicator = (\<lambda>c w. Inr (map (\<lambda>x. NaN) c)),
      ema_indicator = (\<lambda>c w. Inr (map (\<lambda>x. NaN) c)),
      rsi = (\<lambda>c w. Inr (map (\<lambda>x. NaN) c)),
      macd = (\<lambda>c f s g. Inr (map (\<lambda>x. NaN) c)),
      macd_signal = (\<lambda>c f s g. Inr (map (\<lambda>x. NaN) c)),
      macd_diff = (\<lambda>c f s g. Inr (map (\<lambda>x. NaN) c)),
      bollinger_hband = (\<lambda>c w d. Inr (map (\<lambda>x. NaN) c)),
      bollinger_lband = (\<lambda>c w d. Inr (map (\<lambda>x. NaN) c)),
      bollinger_mavg = (\<lambda>c w d. Inr (map (\<lambda>x. NaN) c)),
      on_balance_volume = (\<lambda>c v. Inr (map (\<lambda>x. NaN) c)),
      adx = (\<lambda>h l c w. Inr (map (\<lambda>x. NaN) c)),
      stoch = (\<lambda>h l c w s. Inr (map (\<lambda>x. NaN) c)),
      stoch_signal = (\<lambda>h l c w s. Inr (map (\<lambda>x. NaN) c)),
      average_true_range = (\<lambda>h l c w. Inr (map (\<lambda>x. NaN) c))\<rparr>"

text \<open>
  A series of 250 bars with descending timestamps and negative prices.
\<close>

definition bad_series :: "bar list" where
  "bad_series =
     map (\<lambda>i. \<lparr>Date = - real i, Open = Fin (- 5), High = Fin (- 4), Low = Fin (- 6),
               Close = Fin (- 5), Volume = Fin 1000\<rparr>) [0..<250]"

section \<open>Properties of the rules\<close>

lemma score_helpers:
  "score (set_indicator n sub st) = score st"
  "score (set_indicator_signal n kind st) = score st"
  "score (add_score d st) = score st + d"
  "score (count_signal st) = score st"
  by (simp_all add: set_indicator_def set_indicator_signal_def add_score_def count_signal_def)

lemma count_helpers:
  "signal_count (set_indicator n sub st) = signal_count st"
  "signal_count (set_indicator_signal n kind st) = signal_count st"
  "signal_count (add_score d st) = signal_count st"
  "signal_count (count_signal st) = signal_count st + 1"
  by (simp_all add: set_indicator_def set_indicator_signal_def add_score_def count_signal_def)

lemma signals_helpers:
  "signals (add_score d st) = signals st"
  "signals (count_signal st) = signals st"
  by (simp_all add: add_score_def count_signal_def)

lemma has_indicator_helpers:
  "has_indicator (signals (set_indicator n sub st)) k = (k = n \<or> has_indicator (signals st) k)"
  "has_indicator (signals (set_indicator_signal n kind st)) k = has_indicator (signals st) k"
  by (auto simp add: has_indicator_def set_indicator_def set_indicator_signal_def
      dom_update dom_map_entry)

lemma lookup_helpers:
  "lookup (signals (set_indicator n sub st)) k =
     (if k = n then Some sub else lookup (signals st) k)"
  "lookup (signals (set_indicator_signal n kind st)) k =
     (if k = n then map_option (AList.update ''signal'' (PStr kind)) (lookup (signals st) n)
      else lookup (signals st) k)"
  by (auto simp add: lookup_def set_indicator_def set_indicator_signal_def
      update_conv' map_of_map_entry split: option.splits)

lemma field_helpers:
  "change_pct (signals (set_indicator n sub st)) = change_pct (signals st)"
  "change_pct (signals (set_indicator_signal n kind st)) = change_pct (signals st)"
  "price (signals (set_indicator n sub st)) = price (signals st)"
  "price (signals (set_indicator_signal n kind st)) = price (signals st)"
  "symbol (signals (set_indicator n sub st)) = symbol (signals st)"
  "symbol (signals (set_indicator_signal n kind st)) = symbol (signals st)"
  by (simp_all add: set_indicator_def set_indicator_signal_def)

lemmas helpers = score_helpers count_helpers signals_helpers has_indicator_helpers
  lookup_helpers field_helpers

lemma rule_sma20_facts:
  shows rule_sma20_count: "signal_count (rule_sma20 c st) = signal_count st + 1"
    and rule_sma20_score: "\<bar>score (rule_sma20 c st) - score st\<bar> \<le> 0.5"
    and rule_sma20_keys: "has_indicator (signals (rule_sma20 c st)) k = (k = ''sma20'' \<or> has_indicator (signals st) k)"
    and rule_sma20_lookup: "k \<noteq> ''sma20'' \<Longrightarrow> lookup (signals (rule_sma20 c st)) k = lookup (signals st) k"
    and rule_sma20_change_pct: "change_pct (signals (rule_sma20 c st)) = change_pct (signals st)"
  by (simp_all add: rule_sma20_def helpers Let_def)

lemma rule_sma50_facts:
  shows rule_sma50_count: "signal_count (rule_sma50 c st) = signal_count st + 1"
    and rule_sma50_score: "\<bar>score (rule_sma50 c st) - score st\<bar> \<le> 1"
    and rule_sma50_keys: "has_indicator (signals (rule_sma50 c st)) k = (k = ''sma50'' \<or> has_indicator (signals st) k)"
    and rule_sma50_lookup: "k \<noteq> ''sma50'' \<Longrightarrow> lookup (signals (rule_sma50 c st)) k = lookup (signals st) k"
    and rule_sma50_change_pct: "change_pct (signals (rule_sma50 c st)) = change_pct (signals st)"
  by (simp_all add: rule_sma50_def helpers Let_def)

lemma rule_sma200_facts:
  shows rule_sma200_count: "signal_count (rule_sma200 c st) = signal_count st + 1"
    and rule_sma200_score: "\<bar>score (rule_sma200 c st) - score st\<bar> \<le> 1.5"
    and rule_sma200_keys: "has_indicator (signals (rule_sma200 c st)) k = (k = ''sma200'' \<or> has_indicator (signals st) k)"
    and rule_sma200_lookup: "k \<noteq> ''sma200'' \<Longrightarrow> lookup (signals (rule_sma200 c st)) k = lookup (signals st) k"
    and rule_sma200_change_pct: "change_pct (signals (rule_sma200 c st)) = change_pct (signals st)"
  by (simp_all add: rule_sma200_def helpers Let_def)

lemma rule_rsi_facts:
  shows rule_rsi_count: "signal_count (rule_rsi c st) = signal_count st + 1"
    and rule_rsi_score: "\<bar>score (rule_rsi c st) - score st\<bar> \<le> 1.5"
    and rule_rsi_keys: "has_indicator (signals (rule_rsi c st)) k = (k = ''rsi'' \<or> has_indicator (signals st) k)"
    and rule_rsi_lookup: "k \<noteq> ''rsi'' \<Longrightarrow> lookup (signals (rule_rsi c st)) k = lookup (signals st) k"
    and rule_rsi_change_pct: "change_pct (signals (rule_rsi c st)) = change_pct (signals st)"
  by (simp_all add: rule_rsi_def helpers Let_def)

lemma rule_macd_facts:
  shows rule_macd_count: "signal_count (rule_macd c st) = signal_count st + 1"
    and rule_macd_score: "\<bar>score (rule_macd c st) - score st\<bar> \<le> 1"
    and rule_macd_keys: "has_indicator (signals (rule_macd c st)) k = (k = ''macd'' \<or> has_indicator (signals st) k)"
    and rule_macd_lookup: "k \<noteq> ''macd'' \<Longrightarrow> lookup (signals (rule_macd c st)) k = lookup (signals st) k"
    and rule_macd_change_pct: "change_pct (signals (rule_macd c st)) = change_pct (signals st)"
  by (simp_all add: rule_macd_def helpers Let_def)

lemma rule_bollinger_facts:
  shows rule_bollinger_count: "signal_count (rule_bollinger c st) = signal_count st + 1"
    and rule_bollinger_score: "\<bar>score (rule_bollinger c st) - score st\<bar> \<le> 1"
    and rule_bollinger_keys: "has_indicator (signals (rule_bollinger c st)) k = (k = ''bollinger'' \<or> has_indicator (signals st) k)"
    and rule_bollinger_lookup: "k \<noteq> ''bollinger'' \<Longrightarrow> lookup (signals (rule_bollinger c st)) k = lookup (signals st) k"
    and rule_bollinger_change_pct: "change_pct (signals (rule_bollinger c st)) = change_pct (signals st)"
  by (simp_all add: rule_bollinger_def helpers Let_def)

lemma rule_stochastic_facts:
  shows rule_stochastic_count: "signal_count (rule_stochastic c st) = signal_count st + 1"
    and rule_stochastic_score: "\<bar>score (rule_stochastic c st) - score st\<bar> \<le> 1"
    and rule_stochastic_keys: "has_indicator (signals (rule_stochastic c st)) k = (k = ''stochastic'' \<or> has_indicator (signals st) k)"
    and rule_stochastic_lookup: "k \<noteq> ''stochastic'' \<Longrightarrow> lookup (signals (rule_stochastic c st)) k = lookup (signals st) k"
    and rule_stochastic_change_pct: "change_pct (signals (rule_stochastic c st)) = change_pct (signals st)"
  by (simp_all add: rule_stochastic_def helpers Let_def)

lemma rule_adx_facts:
  shows rule_adx_count: "signal_count (rule_adx c st) = signal_count st"
    and rule_adx_score: "score (rule_adx c st) = score st"
    and rule_adx_keys: "has_indicator (signals (rule_adx c st)) k = (k = ''adx'' \<or> has_indicator (signals st) k)"
    and rule_adx_lookup: "k \<noteq> ''adx'' \<Longrightarrow> lookup (signals (rule_adx c st)) k = lookup (signals st) k"
    and rule_adx_change_pct: "change_pct (signals (rule_adx c st)) = change_pct (signals st)"
  by (simp_all add: rule_adx_def helpers Let_def)

lemma rule_cross_facts:
  shows rule_cross_count: "signal_count (rule_cross p c st) =
          signal_count st + (if golden_fires p c \<or> death_fires p c then 1 else 0)"
    and rule_cross_score: "\<bar>score (rule_cross p c st) - score st\<bar> \<le>
          (if golden_fires p c \<or> death_fires p c then 2 else 0)"
    and rule_cross_keys: "has_indicator (signals (rule_cross p c st)) k =
          (k = ''golden_cross'' \<and> golden_fires p c \<or> k = ''death_cross'' \<and> death_fires p c \<or>
           has_indicator (signals st) k)"
    and rule_cross_lookup: "k \<noteq> ''golden_cross'' \<Longrightarrow> k \<noteq> ''death_cross'' \<Longrightarrow>
          lookup (signals (rule_cross p c st)) k = lookup (signals st) k"
    and rule_cross_change_pct: "change_pct (signals (rule_cross p c st)) = change_pct (signals st)"
  by (auto simp add: rule_cross_def golden_fires_def death_fires_def helpers split: option.splits)

lemma rule_macd_crossover_facts:
  shows rule_macd_crossover_count: "signal_count (rule_macd_crossover p c st) =
          signal_count st + (if macd_crossover_fires p c then 1 else 0)"
    and rule_macd_crossover_score: "\<bar>score (rule_macd_crossover p c st) - score st\<bar> \<le>
          (if macd_crossover_fires p c then 1.5 else 0)"
    and rule_macd_crossover_keys: "has_indicator (signals (rule_macd_crossover p c st)) k =
          (k = ''macd_crossover'' \<and> macd_crossover_fires p c \<or> has_indicator (signals st) k)"
    and rule_macd_crossover_lookup: "k \<noteq> ''macd_crossover'' \<Longrightarrow>
          lookup (signals (rule_macd_crossover p c st)) k = lookup (signals st) k"
    and rule_macd_crossover_change_pct:
          "change_pct (signals (rule_macd_crossover p c st)) = change_pct (signals st)"
  by (auto simp add: rule_macd_crossover_def macd_crossover_fires_def helpers split: option.splits)

lemma rule_volume_facts:
  assumes "rule_volume rows c st = Inr st'"
  shows rule_volume_count: "signal_count st' = signal_count st + 1"
    and rule_volume_score: "\<bar>score st' - score st\<bar> \<le> 0.5"
    and rule_volume_keys: "has_indicator (signals st') k = (k = ''volume'' \<or> has_indicator (signals st) k)"
    and rule_volume_lookup: "k \<noteq> ''volume'' \<Longrightarrow> lookup (signals st') k = lookup (signals st) k"
    and rule_volume_change_pct: "change_pct (signals st') = change_pct (signals st)"
  using assms
  by (auto simp add: rule_volume_def bind_err_def helpers Let_def split: sum.splits if_splits)

lemmas rule_counts = rule_sma20_count rule_sma50_count rule_sma200_count rule_cross_count
  rule_rsi_count rule_macd_count rule_macd_crossover_count rule_bollinger_count rule_adx_count
  rule_stochastic_count

lemmas rule_keys = rule_sma20_keys rule_sma50_keys rule_sma200_keys rule_cross_keys
  rule_rsi_keys rule_macd_keys rule_macd_crossover_keys rule_bollinger_keys rule_adx_keys
  rule_stochastic_keys

lemmas rule_change_pcts = rule_sma20_change_pct rule_sma50_change_pct rule_sma200_change_pct
  rule_cross_change_pct rule_rsi_change_pct rule_macd_change_pct rule_macd_crossover_change_pct
  rule_bollinger_change_pct rule_adx_change_pct rule_stochastic_change_pct

lemma run_rules_count:
  assumes "run_rules rows p c st0 = Inr st"
  shows "signal_count st = signal_count st0 + 8 + crossovers p c"
  using assms
  by (simp add: run_rules_def Let_def rule_volume_count rule_counts crossovers_def)

lemma run_rules_keys:
  assumes "run_rules rows p c st0 = Inr st"
  shows "has_indicator (signals st) k =
     (k \<in> {''sma20'', ''sma50'', ''sma200'', ''rsi'', ''macd'', ''bollinger'', ''adx'',
            ''stochastic'', ''volume''} \<or>
      k = ''golden_cross'' \<and> golden_fires p c \<or> k = ''death_cross'' \<and> death_fires p c \<or>
      k = ''macd_crossover'' \<and> macd_crossover_fires p c \<or> has_indicator (signals st0) k)"
  using assms
  by (auto simp add: run_rules_def Let_def rule_volume_keys rule_keys)

lemma run_rules_change_pct:
  assumes "run_rules rows p c st0 = Inr st"
  shows "change_pct (signals st) = change_pct (signals st0)"
  using assms
  by (simp add: run_rules_def Let_def rule_volume_change_pct rule_change_pcts)

lemma run_rules_score:
  assumes "run_rules rows p c st0 = Inr st"
  shows "\<bar>score st - score st0\<bar> \<le>
           8 + (if golden_fires p c \<or> death_fires p c then 2 else 0)
             + (if macd_crossover_fires p c then 1.5 else 0)"
proof -
  define g :: real where "g = (if golden_fires p c \<or> death_fires p c then 2 else 0)"
  define m :: real where "m = (if macd_crossover_fires p c then 1.5 else 0)"
  define st1 where "st1 = rule_sma20 c st0"
  define st2 where "st2 = rule_sma50 c st1"
  define st3 where "st3 = rule_sma200 c st2"
  define st4 where "st4 = rule_cross p c st3"
  define st5 where "st5 = rule_rsi c st4"
  define st6 where "st6 = rule_macd c st5"
  define st7 where "st7 = rule_macd_crossover p c st6"
  define st8 where "st8 = rule_bollinger c st7"
  define st9 where "st9 = rule_adx c st8"
  define st10 where "st10 = rule_stochastic c st9"
  have v: "rule_volume rows c st10 = Inr st"
    using assms
    by (simp add: run_rules_def Let_def st1_def st2_def st3_def st4_def st5_def st6_def
        st7_def st8_def st9_def st10_def)
  have "\<bar>score st1 - score st0\<bar> \<le> 0.5" unfolding st1_def by (rule rule_sma20_score)
  moreover have "\<bar>score st2 - score st1\<bar> \<le> 1" unfolding st2_def by (rule rule_sma50_score)
  moreover have "\<bar>score st3 - score st2\<bar> \<le> 1.5" unfolding st3_def by (rule rule_sma200_score)
  moreover have "\<bar>score st4 - score st3\<bar> \<le> g"
    unfolding st4_def g_def by (rule rule_cross_score)
  moreover have "\<bar>score st5 - score st4\<bar> \<le> 1.5" unfolding st5_def by (rule rule_rsi_score)
  moreover have "\<bar>score st6 - score st5\<bar> \<le> 1" unfolding st6_def by (rule rule_macd_score)
  moreover have "\<bar>score st7 - score st6\<bar> \<le> m"
    unfolding st7_def m_def by (rule rule_macd_crossover_score)
  moreover have "\<bar>score st8 - score st7\<bar> \<le> 1" unfolding st8_def by (rule rule_bollinger_score)
  moreover have "score st9 = score st8" unfolding st9_def by (rule rule_adx_score)
  moreover have "\<bar>score st10 - score st9\<bar> \<le> 1" unfolding st10_def by (rule rule_stochastic_score)
  moreover have "\<bar>score st - score st10\<bar> \<le> 0.5" using v by (rule rule_volume_score)
  ultimately have "\<bar>score st - score st0\<bar> \<le> 8 + g + m"
    unfolding abs_diff_le_iff by linarith
  then show ?thesis by (simp only: g_def m_def)
qed

section \<open>Properties of generate_signals\<close>

lemma bind_err_simps:
  "bind_err (Inl e) f = Inl e"
  "bind_err (Inr x) f = f x"
  by (simp_all add: bind_err_def)

lemma bind_err_cong: "m = m' \<Longrightarrow> bind_err m f = bind_err m' f"
  by simp

lemma iloc_last: "rows \<noteq> [] \<Longrightarrow> iloc rows (- 1) = Inr (last rows)"
  by (cases rows rule: rev_cases) (auto simp add: iloc_def nat_add_distrib)

lemma iloc_previous: "1 < length rows \<Longrightarrow> iloc rows (- 2) = Inr (rows ! (length rows - 2))"
  by (auto simp add: iloc_def nat_diff_distrib' intro: arg_cong)

lemma iloc_empty: "iloc [] i = Inl IndexError"
  by (simp add: iloc_def)

lemma evaluate_empty: "evaluate [] symb = Inl IndexError"
  by (simp add: evaluate_def iloc_empty bind_err_def)

lemma evaluate_run_rules:
  assumes "rows \<noteq> []"
  shows "evaluate rows symb =
           run_rules rows (previous_of rows) (last rows)
             (initial symb (fl_round2 (Close (last rows))) (change_of rows))"
proof (cases "1 < length rows")
  case True
  then show ?thesis
    using assms
    by (simp add: evaluate_def iloc_last iloc_previous bind_err_simps previous_of_def change_of_def)
next
  case False
  then show ?thesis
    using assms
    by (simp add: evaluate_def iloc_last bind_err_simps previous_of_def change_of_def)
qed

lemma initial_facts:
  shows "score (initial symb p chg) = 0"
    and "signal_count (initial symb p chg) = 0"
    and "has_indicator (signals (initial symb p chg)) k = False"
    and "change_pct (signals (initial symb p chg)) = chg"
    and "lookup (signals (initial symb p chg)) k = None"
  by (simp_all add: initial_def has_indicator_def lookup_def)

lemma evaluate_Inr:
  assumes "evaluate rows symb = Inr st"
  shows "rows \<noteq> []"
    and "signal_count st = 8 + crossovers (previous_of rows) (last rows)"
    and "\<bar>score st\<bar> \<le> 8 + (if golden_fires (previous_of rows) (last rows) \<or>
                                  death_fires (previous_of rows) (last rows) then 2 else 0)
                          + (if macd_crossover_fires (previous_of rows) (last rows) then 1.5 else 0)"
    and "has_indicator (signals st) ''golden_cross'' = golden_fires (previous_of rows) (last rows)"
    and "has_indicator (signals st) ''death_cross'' = death_fires (previous_of rows) (last rows)"
    and "has_indicator (signals st) ''macd_crossover'' =
           macd_crossover_fires (previous_of rows) (last rows)"
    and "change_pct (signals st) = change_of rows"
proof -
  show ne: "rows \<noteq> []" using assms by (auto simp add: evaluate_empty)
  from evaluate_run_rules [OF ne, of symb] assms
  have r: "run_rules rows (previous_of rows) (last rows)
             (initial symb (fl_round2 (Close (last rows))) (change_of rows)) = Inr st"
    by simp
  show "signal_count st = 8 + crossovers (previous_of rows) (last rows)"
    using run_rules_count [OF r] by (simp add: initial_facts)
  show "\<bar>score st\<bar> \<le> 8 + (if golden_fires (previous_of rows) (last rows) \<or>
                                  death_fires (previous_of rows) (last rows) then 2 else 0)
                          + (if macd_crossover_fires (previous_of rows) (last rows) then 1.5 else 0)"
    using run_rules_score [OF r] by (simp only: initial_facts diff_zero)
  show "has_indicator (signals st) ''golden_cross'' = golden_fires (previous_of rows) (last rows)"
    by (simp add: run_rules_keys [OF r] initial_facts)
  show "has_indicator (signals st) ''death_cross'' = death_fires (previous_of rows) (last rows)"
    by (simp add: run_rules_keys [OF r] initial_facts)
  show "has_indicator (signals st) ''macd_crossover'' =
           macd_crossover_fires (previous_of rows) (last rows)"
    by (simp add: run_rules_keys [OF r] initial_facts)
  show "change_pct (signals st) = change_of rows"
    using run_rules_change_pct [OF r] by (simp add: initial_facts)
qed

lemma evaluate_count_fired:
  assumes "evaluate rows symb = Inr st"
  shows "signal_count st = 8 + crossovers_fired (signals st)"
  using evaluate_Inr(2,4,5,6) [OF assms] by (simp add: crossovers_def crossovers_fired_def)

lemma evaluate_preclamp:
  assumes "evaluate rows symb = Inr st"
  shows "\<bar>score st / (real (signal_count st) * 0.75)\<bar> \<le> 23 / 15"
proof -
  let ?p = "previous_of rows" and ?c = "last rows"
  note n = evaluate_Inr(2) [OF assms] and s = evaluate_Inr(3) [OF assms]
  show ?thesis
  proof (cases "golden_fires ?p ?c \<or> death_fires ?p ?c")
    case g: True
    show ?thesis
    proof (cases "macd_crossover_fires ?p ?c")
      case True
      with g n s have "signal_count st = 10" "\<bar>score st\<bar> \<le> 11.5"
        by (simp_all add: crossovers_def)
      then show ?thesis by (simp add: abs_le_iff field_simps; linarith)
    next
      case False
      with g n s have "signal_count st = 9" "\<bar>score st\<bar> \<le> 10"
        by (simp_all add: crossovers_def)
      then show ?thesis by (simp add: abs_le_iff field_simps; linarith)
    qed
  next
    case g: False
    show ?thesis
    proof (cases "macd_crossover_fires ?p ?c")
      case True
      with g n s have "signal_count st = 9" "\<bar>score st\<bar> \<le> 9.5"
        by (simp_all add: crossovers_def)
      then show ?thesis by (simp add: abs_le_iff field_simps; linarith)
    next
      case False
      with g n s have "signal_count st = 8" "\<bar>score st\<bar> \<le> 8"
        by (simp_all add: crossovers_def)
      then show ?thesis by (simp add: abs_le_iff field_simps; linarith)
    qed
  qed
qed

section \<open>The concrete inputs evaluated\<close>

lemma example_bar_fields:
  "Close example_bar = Fin 100" "Volume example_bar = Fin 1000000"
  "SMA20 example_bar = NaN" "SMA50 example_bar = NaN" "SMA200 example_bar = NaN"
  "RSI example_bar = NaN" "MACD example_bar = NaN" "MACD_Signal example_bar = NaN"
  "BB_Upper example_bar = NaN" "BB_Lower example_bar = NaN" "BB_Width example_bar = NaN"
  "ADX example_bar = NaN" "Stoch_K example_bar = NaN" "Stoch_D example_bar = NaN"
  by (simp_all add: example_bar_def)

lemma cross_fields:
  "Close cross_previous = Fin 100" "Volume cross_previous = Fin 1000000"
  "SMA50 cross_previous = Fin 99" "SMA200 cross_previous = Fin 100"
  "MACD cross_previous = Fin (- 1)" "MACD_Signal cross_previous = Fin 0"
  "Close cross_current = Fin 110" "Volume cross_current = Fin 4000000"
  "SMA20 cross_current = Fin 105" "SMA50 cross_current = Fin 101"
  "SMA200 cross_current = Fin 100" "RSI cross_current = Fin 25" "MACD cross_current = Fin 1"
  "MACD_Signal cross_current = Fin 0" "BB_Upper cross_current = Fin 120"
  "BB_Lower cross_current = Fin 110" "BB_Width cross_current = Fin 0.08"
  "ADX cross_current = Fin 30" "Stoch_K cross_current = Fin 10" "Stoch_D cross_current = Fin 15"
  by (simp_all add: cross_previous_def cross_current_def)

lemmas rule_defs = rule_sma20_def rule_sma50_def rule_sma200_def rule_cross_def rule_rsi_def
  rule_macd_def rule_macd_crossover_def rule_bollinger_def rule_adx_def rule_stochastic_def
  rule_volume_def bb_position_def volume_ratio_def tail_def mean_def fl_gt_def fl_ge_def
  fl_sub_def RSI_OVERBOUGHT_def RSI_OVERSOLD_def round2_def round_half_even_def

lemmas state_defs = set_indicator_def set_indicator_signal_def add_score_def count_signal_def
  initial_def

lemma example_evaluate: "evaluate [example_bar] ''AAPL'' = Inr example_scoring"
  by (simp add: evaluate_def iloc_def run_rules_def Let_def bind_err_simps example_bar_fields
      rule_defs state_defs example_scoring_def example_indicators_def cong: bind_err_cong)

lemma example_finish: "finish example_scoring = example_signal"
  by (simp add: finish_def normalized_score_def label_def round2_def round_half_even_def
    example_scoring_def example_signal_def)

lemma cross_evaluate: "evaluate [cross_previous, cross_current] ''AAPL'' = Inr cross_scoring"
  by (simp add: evaluate_def iloc_def run_rules_def Let_def bind_err_simps cross_fields
      rule_defs state_defs cross_scoring_def cross_indicators_def cong: bind_err_cong)

lemma cross_finish: "finish cross_scoring = cross_signal"
  by (simp add: finish_def normalized_score_def label_def round2_def round_half_even_def
    cross_scoring_def cross_signal_def)

lemma example_generate: "generate_signals (Some [example_bar]) ''AAPL'' = Inr (Some example_signal)"
  by (simp add: generate_signals_def example_evaluate example_finish bind_err_simps)

lemma cross_generate:
  "generate_signals (Some [cross_previous, cross_current]) ''AAPL'' = Inr (Some cross_signal)"
  by (simp add: generate_signals_def cross_evaluate cross_finish bind_err_simps)

section \<open>The returned signal\<close>

lemma generate_signals_Some:
  assumes "generate_signals df symb = Inr (Some s)"
  shows "\<exists>rows st. df = Some rows \<and> rows \<noteq> [] \<and> evaluate rows symb = Inr st \<and> s = finish st"
  using assms
  by (auto simp add: generate_signals_def bind_err_def split: option.splits if_splits sum.splits)

lemma finish_facts:
  shows "signal_strength (finish st) = round2 (normalized_score st)"
    and "overall_signal (finish st) = label (normalized_score st)"
    and "change_pct (finish st) = change_pct (signals st)"
    and "has_indicator (finish st) k = has_indicator (signals st) k"
    and "lookup (finish st) k = lookup (signals st) k"
    and "crossovers_fired (finish st) = crossovers_fired (signals st)"
  by (simp_all add: finish_def has_indicator_def lookup_def crossovers_fired_def)

lemma normalized_score_range: "- 2 \<le> normalized_score st \<and> normalized_score st \<le> 2"
  by (simp add: normalized_score_def)

lemma round_half_even_bounds:
  assumes "of_int lo \<le> x" and "x \<le> of_int hi"
  shows "lo \<le> round_half_even x \<and> round_half_even x \<le> hi"
proof -
  have lo: "lo \<le> \<lfloor>x\<rfloor>" using assms(1) by (simp add: le_floor_iff)
  have hi: "\<lfloor>x\<rfloor> \<le> hi" using assms(2) by (simp add: floor_le_iff)
  have up: "\<lfloor>x\<rfloor> + 1 \<le> hi" if "0 < x - of_int \<lfloor>x\<rfloor>"
  proof -
    have "of_int \<lfloor>x\<rfloor> < (of_int hi :: real)" using that assms(2) by linarith
    then have "\<lfloor>x\<rfloor> < hi" by simp
    then show ?thesis by simp
  qed
  show ?thesis
    using lo hi up by (auto simp add: round_half_even_def Let_def)
qed

lemma round2_range:
  assumes "- 2 \<le> x" and "x \<le> 2"
  shows "- 2 \<le> round2 x \<and> round2 x \<le> 2"
proof -
  have "- 200 \<le> round_half_even (x * 100) \<and> round_half_even (x * 100) \<le> 200"
    using assms by (intro round_half_even_bounds) simp_all
  then have "- 200 \<le> (of_int (round_half_even (x * 100)) :: real) \<and>
             (of_int (round_half_even (x * 100)) :: real) \<le> 200"
    by (metis of_int_le_iff of_int_numeral of_int_minus)
  then show ?thesis by (simp add: round2_def)
qed

section \<open>The normalized score\<close>

text \<open>
  Claim C1 states that the normalized score is clamp(score / (count * 0.75), -2, 2) where
  count is 9 plus one for each crossover rule that fired. It fails on the series of one
  bar with undefined indicators: no crossover fires and the score is -4; the code divides
  by 8 * 0.75 and gives -2/3, the stated formula gives -16/27.
\<close>

theorem normalized_count_nine_counterexample:
  "evaluate [example_bar] ''AAPL'' = Inr example_scoring \<and>
   normalized_score example_scoring = - 2 / 3 \<and>
   spec_normalized example_scoring = - 16 / 27 \<and>
   normalized_score example_scoring \<noteq> spec_normalized example_scoring"
  by (simp add: example_evaluate normalized_score_def spec_normalized_def crossovers_fired_def
      has_indicator_def example_scoring_def example_indicators_def)

text \<open>
  Claim C1, amended: whenever the rules run to the end, \<^verbatim>\<open>signal_count\<close> is 8 plus the
  number of crossover rules that stored an entry (none, one or two, so the count is 8, 9
  or 10), and the normalized score is clamp(score / (count * 0.75), -2, 2) for this count.
\<close>

theorem normalized_score_formula:
  assumes "evaluate rows symb = Inr st"
  shows "signal_count st = 8 + crossovers_fired (signals st) \<and>
         crossovers_fired (signals st) \<le> 2 \<and>
         normalized_score st =
           max (min (score st / (real (8 + crossovers_fired (signals st)) * 0.75)) 2) (- 2)"
proof -
  have c: "signal_count st = 8 + crossovers_fired (signals st)"
    using assms by (rule evaluate_count_fired)
  moreover have "crossovers_fired (signals st) \<le> 2"
    by (simp add: crossovers_fired_def)
  moreover have "normalized_score st =
      max (min (score st / (real (8 + crossovers_fired (signals st)) * 0.75)) 2) (- 2)"
    unfolding normalized_score_def c by simp
  ultimately show ?thesis by blast
qed

text \<open>On the two rows with both crossovers the count is 10.\<close>

theorem normalized_score_formula_witness:
  "evaluate [cross_previous, cross_current] ''AAPL'' = Inr cross_scoring \<and>
   signal_count cross_scoring = 8 + crossovers_fired (signals cross_scoring) \<and>
   crossovers_fired (signals cross_scoring) = 2 \<and>
   normalized_score cross_scoring = 23 / 15"
  using normalized_score_formula [OF cross_evaluate] cross_evaluate
  by (simp add: cross_scoring_def)

text \<open>
  Claim C3 states that some annotated series makes the value before the clamp,
  score / (count * 0.75), fall outside [-2, 2]. No series does.
\<close>

theorem clamp_exercised_counterexample:
  "\<not> (\<exists>rows symb st. evaluate rows symb = Inr st \<and>
        (score st / (real (signal_count st) * 0.75) < - 2 \<or>
         2 < score st / (real (signal_count st) * 0.75)))"
proof
  assume "\<exists>rows symb st. evaluate rows symb = Inr st \<and>
        (score st / (real (signal_count st) * 0.75) < - 2 \<or>
         2 < score st / (real (signal_count st) * 0.75))"
  then obtain rows symb st where e: "evaluate rows symb = Inr st"
    and o: "score st / (real (signal_count st) * 0.75) < - 2 \<or>
            2 < score st / (real (signal_count st) * 0.75)"
    by blast
  from evaluate_preclamp [OF e] o show False
    unfolding abs_le_iff by linarith
qed

text \<open>
  Claim C3, amended: for every annotated series on which the rules run to the end, the
  value before the clamp lies in [-23/15, 23/15], so the clamp returns it unchanged.
\<close>

theorem clamp_is_identity:
  assumes "evaluate rows symb = Inr st"
  shows "\<bar>score st / (real (signal_count st) * 0.75)\<bar> \<le> 23 / 15 \<and>
         normalized_score st = score st / (real (signal_count st) * 0.75)"
proof -
  have b: "\<bar>score st / (real (signal_count st) * 0.75)\<bar> \<le> 23 / 15"
    using assms by (rule evaluate_preclamp)
  have "0 < signal_count st"
    using evaluate_Inr(2) [OF assms] by simp
  then have "normalized_score st = score st / (real (signal_count st) * 0.75)"
    using b unfolding normalized_score_def abs_le_iff by (simp add: max_def min_def)
  with b show ?thesis by blast
qed

text \<open>The bound 23/15 is reached when all ten rules fire upwards.\<close>

theorem clamp_is_identity_witness:
  "evaluate [cross_previous, cross_current] ''AAPL'' = Inr cross_scoring \<and>
   score cross_scoring / (real (signal_count cross_scoring) * 0.75) = 23 / 15 \<and>
   normalized_score cross_scoring = 23 / 15"
  using clamp_is_identity [OF cross_evaluate] cross_evaluate
  by (simp add: cross_scoring_def)

text \<open>
  Claim C4: for every annotated series and symbol, the signal that \<^verbatim>\<open>generate_signals\<close>
  returns has a \<^verbatim>\<open>signal_strength\<close> in [-2, 2], and it is the normalized score rounded to
  two decimals.
\<close>

theorem signal_strength_range:
  assumes "generate_signals df symb = Inr (Some s)"
  shows "- 2 \<le> signal_strength s \<and> signal_strength s \<le> 2 \<and>
         (\<exists>rows st. df = Some rows \<and> evaluate rows symb = Inr st \<and>
            signal_strength s = round2 (normalized_score st))"
proof -
  from generate_signals_Some [OF assms] obtain rows st
    where d: "df = Some rows" and e: "evaluate rows symb = Inr st" and s: "s = finish st"
    by blast
  have r: "signal_strength s = round2 (normalized_score st)"
    by (simp add: s finish_facts)
  have "- 2 \<le> round2 (normalized_score st) \<and> round2 (normalized_score st) \<le> 2"
    using normalized_score_range [of st] by (intro round2_range) simp_all
  with r d e show ?thesis by auto
qed

text \<open>The series of one bar has strength -0.67, the rounding of -2/3.\<close>

theorem signal_strength_range_witness:
  "generate_signals (Some [example_bar]) ''AAPL'' = Inr (Some example_signal) \<and>
   signal_strength example_signal = - 0.67 \<and>
   - 2 \<le> signal_strength example_signal \<and> signal_strength example_signal \<le> 2"
  using signal_strength_range [OF example_generate] example_generate
  by (simp add: example_signal_def)

text \<open>
  Claim C5: the label \<^verbatim>\<open>overall_signal\<close> follows from the normalized score n, which lies
  in [-2, 2]: strong_buy for n in (1.5, 2], buy for (0.5, 1.5], neutral for (-0.5, 0.5],
  sell for (-1.5, -0.5] and strong_sell for [-2, -1.5].
\<close>

theorem overall_signal_thresholds:
  assumes "generate_signals df symb = Inr (Some s)"
  shows "\<exists>rows st. df = Some rows \<and> evaluate rows symb = Inr st \<and>
           - 2 \<le> normalized_score st \<and> normalized_score st \<le> 2 \<and>
           (1.5 < normalized_score st \<and> normalized_score st \<le> 2 \<longrightarrow>
              overall_signal s = ''strong_buy'') \<and>
           (0.5 < normalized_score st \<and> normalized_score st \<le> 1.5 \<longrightarrow>
              overall_signal s = ''buy'') \<and>
           (- 0.5 < normalized_score st \<and> normalized_score st \<le> 0.5 \<longrightarrow>
              overall_signal s = ''neutral'') \<and>
           (- 1.5 < normalized_score st \<and> normalized_score st \<le> - 0.5 \<longrightarrow>
              overall_signal s = ''sell'') \<and>
           (- 2 \<le> normalized_score st \<and> normalized_score st \<le> - 1.5 \<longrightarrow>
              overall_signal s = ''strong_sell'')"
proof -
  from generate_signals_Some [OF assms] obtain rows st
    where d: "df = Some rows" and e: "evaluate rows symb = Inr st" and s: "s = finish st"
    by blast
  have o: "overall_signal s = label (normalized_score st)"
    by (simp add: s finish_facts)
  show ?thesis
    using d e normalized_score_range [of st]
    by (intro exI [of _ rows] exI [of _ st]) (simp add: o label_def)
qed

text \<open>The two rows with all rules firing upwards are labelled strong_buy.\<close>

theorem overall_signal_thresholds_witness:
  "generate_signals (Some [cross_previous, cross_current]) ''AAPL'' = Inr (Some cross_signal) \<and>
   evaluate [cross_previous, cross_current] ''AAPL'' = Inr cross_scoring \<and>
   1.5 < normalized_score cross_scoring \<and> normalized_score cross_scoring \<le> 2 \<and>
   overall_signal cross_signal = ''strong_buy''"
  using overall_signal_thresholds [OF cross_generate] cross_generate cross_evaluate
  by (simp add: cross_signal_def cross_scoring_def normalized_score_def)

section \<open>The crossover rules\<close>

text \<open>
  Claim C8: on one evaluation at most one of the golden-cross and death-cross rules
  fires: the mapping of the returned signal never has both a \<^verbatim>\<open>golden_cross\<close> and a
  \<^verbatim>\<open>death_cross\<close> entry.
\<close>

theorem golden_death_exclusive:
  assumes "generate_signals df symb = Inr (Some s)"
  shows "\<not> (has_indicator s ''golden_cross'' \<and> has_indicator s ''death_cross'')"
proof -
  from generate_signals_Some [OF assms] obtain rows st
    where e: "evaluate rows symb = Inr st" and s: "s = finish st"
    by blast
  show ?thesis
    using evaluate_Inr(4,5) [OF e]
    by (auto simp add: s finish_facts death_fires_def split: option.splits)
qed

text \<open>On the two rows the golden cross fires and the death cross does not.\<close>

theorem golden_death_exclusive_witness:
  "generate_signals (Some [cross_previous, cross_current]) ''AAPL'' = Inr (Some cross_signal) \<and>
   has_indicator cross_signal ''golden_cross'' \<and> \<not> has_indicator cross_signal ''death_cross''"
  using golden_death_exclusive [OF cross_generate] cross_generate
  by (simp add: cross_signal_def cross_indicators_def has_indicator_def)

section \<open>Series of one bar\<close>

lemma volume_ratio_single:
  assumes "Volume b = Fin v"
  shows "\<not> number_gt (volume_ratio [b] b) (Fin 1.5)"
  using assms by (simp add: volume_ratio_def tail_def mean_def fl_gt_def)

lemma rule_volume_total:
  assumes "Volume c = Fin v" and "1 < length rows \<or> rows = [c]"
  shows "\<exists>st'. rule_volume rows c st = Inr st'"
proof (cases "1 < length rows")
  case True
  then show ?thesis
    using assms(1) by (simp add: rule_volume_def bind_err_simps iloc_previous Let_def)
next
  case False
  with assms(2) have "rows = [c]" by simp
  then show ?thesis
    using assms(1) volume_ratio_single [of c v]
    by (simp add: rule_volume_def bind_err_simps Let_def)
qed

lemma evaluate_total:
  assumes "rows \<noteq> []" and "Volume (last rows) = Fin v"
  shows "\<exists>st. evaluate rows symb = Inr st"
proof -
  have "1 < length rows \<or> rows = [last rows]"
    using assms(1) by (cases rows rule: rev_cases) (auto simp add: Suc_lessI)
  then show ?thesis
    using assms
    by (simp add: evaluate_run_rules run_rules_def Let_def rule_volume_total)
qed

lemma generate_signals_total:
  assumes "rows \<noteq> []" and "Volume (last rows) = Fin v"
  shows "\<exists>st. evaluate rows symb = Inr st \<and>
              generate_signals (Some rows) symb = Inr (Some (finish st))"
  using evaluate_total [OF assms, of symb] assms(1)
  by (auto simp add: generate_signals_def bind_err_simps)

text \<open>
  Claim C7: on a series of exactly one bar \<^verbatim>\<open>generate_signals\<close> degrades gracefully.
  The previous bar is absent, every signal it returns has \<^verbatim>\<open>change_pct\<close> 0 and no
  \<^verbatim>\<open>golden_cross\<close>, \<^verbatim>\<open>death_cross\<close> or \<^verbatim>\<open>macd_crossover\<close> entry, and it does return
  a signal when the volume of the bar is a finite number, as the data model has it.
\<close>

theorem single_bar_degrades:
  "previous_of [b] = None \<and>
   (\<forall>s. generate_signals (Some [b]) symb = Inr (Some s) \<longrightarrow>
        change_pct s = PInt 0 \<and> \<not> has_indicator s ''golden_cross'' \<and>
        \<not> has_indicator s ''death_cross'' \<and> \<not> has_indicator s ''macd_crossover'') \<and>
   (\<forall>v. Volume b = Fin v \<longrightarrow> (\<exists>s. generate_signals (Some [b]) symb = Inr (Some s)))"
proof (intro conjI allI impI)
  show "previous_of [b] = None" by (simp add: previous_of_def)
next
  fix s
  assume g: "generate_signals (Some [b]) symb = Inr (Some s)"
  from generate_signals_Some [OF g] obtain st
    where e: "evaluate [b] symb = Inr st" and s: "s = finish st"
    by auto
  have p: "previous_of [b] = None" by (simp add: previous_of_def)
  show "change_pct s = PInt 0"
    using evaluate_Inr(7) [OF e] by (simp add: s finish_facts change_of_def)
  show "\<not> has_indicator s ''golden_cross''"
    using evaluate_Inr(4) [OF e] by (simp add: s finish_facts p golden_fires_def)
  show "\<not> has_indicator s ''death_cross''"
    using evaluate_Inr(5) [OF e] by (simp add: s finish_facts p death_fires_def)
  show "\<not> has_indicator s ''macd_crossover''"
    using evaluate_Inr(6) [OF e] by (simp add: s finish_facts p macd_crossover_fires_def)
next
  fix v
  assume "Volume b = Fin v"
  then show "\<exists>s. generate_signals (Some [b]) symb = Inr (Some s)"
    using generate_signals_total [of "[b]" v symb] by auto
qed

text \<open>The series of one bar with undefined indicators.\<close>

theorem single_bar_degrades_witness:
  "previous_of [example_bar] = None \<and>
   generate_signals (Some [example_bar]) ''AAPL'' = Inr (Some example_signal) \<and>
   Volume example_bar = Fin 1000000 \<and>
   change_pct example_signal = PInt 0 \<and> \<not> has_indicator example_signal ''golden_cross'' \<and>
   \<not> has_indicator example_signal ''death_cross'' \<and>
   \<not> has_indicator example_signal ''macd_crossover''"
  using single_bar_degrades [of example_bar "''AAPL''"] example_generate
  by (simp add: example_bar_fields)

section \<open>Undefined indicator values\<close>

lemmas rule_lookups = rule_sma20_lookup rule_sma50_lookup rule_sma200_lookup rule_cross_lookup
  rule_rsi_lookup rule_macd_lookup rule_macd_crossover_lookup rule_bollinger_lookup
  rule_adx_lookup rule_stochastic_lookup

lemma run_rules_lookup:
  assumes "run_rules rows p c st0 = Inr st"
  shows "lookup (signals st) ''sma20'' = lookup (signals (rule_sma20 c st0)) ''sma20''"
    and "lookup (signals st) ''sma50'' =
           lookup (signals (rule_sma50 c (rule_sma20 c st0))) ''sma50''"
    and "lookup (signals st) ''sma200'' =
           lookup (signals (rule_sma200 c (rule_sma50 c (rule_sma20 c st0)))) ''sma200''"
    and "lookup (signals st) ''rsi'' =
           lookup (signals (rule_rsi c (rule_cross p c
             (rule_sma200 c (rule_sma50 c (rule_sma20 c st0)))))) ''rsi''"
    and "lookup (signals st) ''bollinger'' =
           lookup (signals (rule_bollinger c (rule_macd_crossover p c (rule_macd c (rule_rsi c
             (rule_cross p c (rule_sma200 c (rule_sma50 c (rule_sma20 c st0))))))))) ''bollinger''"
  using assms
  by (simp_all add: run_rules_def Let_def rule_volume_lookup rule_lookups)

lemma undefined_rule_entries:
  shows "SMA20 c = NaN \<Longrightarrow> lookup (signals (rule_sma20 c st)) ''sma20'' =
           Some [(''signal'', PStr ''bearish''), (''value'', PFloat NaN)]"
    and "SMA50 c = NaN \<Longrightarrow> lookup (signals (rule_sma50 c st)) ''sma50'' =
           Some [(''signal'', PStr ''bearish''), (''value'', PFloat NaN)]"
    and "SMA200 c = NaN \<Longrightarrow> lookup (signals (rule_sma200 c st)) ''sma200'' =
           Some [(''signal'', PStr ''bearish''), (''value'', PFloat NaN)]"
    and "RSI c = NaN \<Longrightarrow> lookup (signals (rule_rsi c st)) ''rsi'' =
           Some [(''signal'', PStr ''neutral''), (''value'', PFloat NaN)]"
  by (simp_all add: rule_sma20_def rule_sma50_def rule_sma200_def rule_rsi_def helpers fl_gt_def
      RSI_OVERSOLD_def RSI_OVERBOUGHT_def Let_def)

lemma rule_deltas:
  shows "score (rule_sma20 c st) = score st + delta_sma20 c"
    and "score (rule_sma50 c st) = score st + delta_sma50 c"
    and "score (rule_sma200 c st) = score st + delta_sma200 c"
    and "score (rule_rsi c st) = score st + delta_rsi c"
    and "score (rule_macd c st) = score st + delta_macd c"
    and "score (rule_bollinger c st) = score st + delta_bollinger c"
    and "score (rule_stochastic c st) = score st + delta_stochastic c"
  by (simp_all add: rule_sma20_def rule_sma50_def rule_sma200_def rule_rsi_def rule_macd_def
      rule_bollinger_def rule_stochastic_def delta_sma20_def delta_sma50_def delta_sma200_def
      delta_rsi_def delta_macd_def delta_bollinger_def delta_stochastic_def helpers Let_def)

lemma rule_cross_delta: "score (rule_cross p c st) = score st + delta_cross p c"
  by (auto simp add: rule_cross_def delta_cross_def golden_fires_def death_fires_def helpers
      split: option.splits)

lemma rule_macd_crossover_delta:
  "score (rule_macd_crossover p c st) = score st + delta_macd_crossover p c"
  by (auto simp add: rule_macd_crossover_def delta_macd_crossover_def helpers
      split: option.splits)

lemma iloc_previous_of:
  assumes "iloc rows (- 2) = Inr p"
  shows "previous_of rows = Some p"
proof (cases "1 < length rows")
  case True
  with assms show ?thesis by (simp add: iloc_previous previous_of_def)
next
  case False
  with assms show ?thesis by (simp add: iloc_def split: if_splits)
qed

lemma rule_volume_delta:
  assumes "rule_volume rows c st = Inr st'"
  shows "score st' = score st + delta_volume rows c"
proof (cases "number_gt (volume_ratio rows c) (Fin 1.5)")
  case False
  with assms show ?thesis
    by (auto simp add: rule_volume_def delta_volume_def bind_err_def helpers Let_def
        split: sum.splits)
next
  case True
  with assms obtain p where p: "iloc rows (- 2) = Inr p"
    by (auto simp add: rule_volume_def bind_err_def Let_def split: sum.splits)
  from assms True p iloc_previous_of [OF p] show ?thesis
    by (auto simp add: rule_volume_def delta_volume_def bind_err_def helpers Let_def
        split: sum.splits if_splits)
qed

lemma run_rules_deltas:
  assumes "run_rules rows p c st0 = Inr st"
  shows "score st = score st0 + delta_sma20 c + delta_sma50 c + delta_sma200 c +
           delta_cross p c + delta_rsi c + delta_macd c + delta_macd_crossover p c +
           delta_bollinger c + delta_stochastic c + delta_volume rows c"
  using assms
  by (simp add: run_rules_def Let_def rule_volume_delta rule_deltas rule_cross_delta
      rule_macd_crossover_delta rule_adx_score)

lemma evaluate_deltas:
  assumes "evaluate rows symb = Inr st"
  shows "score st = delta_sma20 (last rows) + delta_sma50 (last rows) +
           delta_sma200 (last rows) + delta_cross (previous_of rows) (last rows) +
           delta_rsi (last rows) + delta_macd (last rows) +
           delta_macd_crossover (previous_of rows) (last rows) +
           delta_bollinger (last rows) + delta_stochastic (last rows) +
           delta_volume rows (last rows)"
proof -
  have ne: "rows \<noteq> []" using assms by (rule evaluate_Inr(1))
  from assms have "run_rules rows (previous_of rows) (last rows)
             (initial symb (fl_round2 (Close (last rows))) (change_of rows)) = Inr st"
    by (simp add: evaluate_run_rules [OF ne])
  from run_rules_deltas [OF this] show ?thesis
    by (simp add: initial_facts)
qed

lemma undefined_deltas:
  shows "SMA20 c = NaN \<Longrightarrow> delta_sma20 c = - 0.5"
    and "SMA50 c = NaN \<Longrightarrow> delta_sma50 c = - 1"
    and "SMA200 c = NaN \<Longrightarrow> delta_sma200 c = - 1.5"
    and "RSI c = NaN \<Longrightarrow> delta_rsi c = 0"
  by (simp_all add: delta_sma20_def delta_sma50_def delta_sma200_def delta_rsi_def fl_gt_def
      RSI_OVERSOLD_def RSI_OVERBOUGHT_def)

text \<open>
  Claim C10: a rule over an indicator that is undefined (NaN) on the last bar is not
  skipped by the evaluation. The score that \<^verbatim>\<open>generate_signals\<close> normalizes is the sum
  of the steps of all ten scoring rules and the count is 8 plus the crossovers, whether
  or not an indicator is defined. With an undefined SMA20, SMA50 or SMA200 the comparison
  with close takes the else branch: the returned signal has the entry bearish and the
  rule's step in that sum is the full -0.5, -1 or -1.5. With an undefined RSI the entry is
  neutral and the rule's step is 0; the rule is among the 8 that count.
\<close>

theorem undefined_indicator_not_skipped:
  assumes "generate_signals (Some rows) symb = Inr (Some s)"
    and "c = last rows" and "p = previous_of rows"
  shows "\<exists>st. evaluate rows symb = Inr st \<and> s = finish st \<and>
           signal_count st = 8 + crossovers p c \<and>
           normalized_score st =
             max (min (score st / (real (8 + crossovers p c) * 0.75)) 2) (- 2) \<and>
           score st = delta_sma20 c + delta_sma50 c + delta_sma200 c + delta_cross p c +
             delta_rsi c + delta_macd c + delta_macd_crossover p c + delta_bollinger c +
             delta_stochastic c + delta_volume rows c \<and>
           (SMA20 c = NaN \<longrightarrow>
              lookup s ''sma20'' = Some [(''signal'', PStr ''bearish''), (''value'', PFloat NaN)] \<and>
              score st = - 0.5 + delta_sma50 c + delta_sma200 c + delta_cross p c +
                delta_rsi c + delta_macd c + delta_macd_crossover p c + delta_bollinger c +
                delta_stochastic c + delta_volume rows c) \<and>
           (SMA50 c = NaN \<longrightarrow>
              lookup s ''sma50'' = Some [(''signal'', PStr ''bearish''), (''value'', PFloat NaN)] \<and>
              score st = delta_sma20 c - 1 + delta_sma200 c + delta_cross p c +
                delta_rsi c + delta_macd c + delta_macd_crossover p c + delta_bollinger c +
                delta_stochastic c + delta_volume rows c) \<and>
           (SMA200 c = NaN \<longrightarrow>
              lookup s ''sma200'' = Some [(''signal'', PStr ''bearish''), (''value'', PFloat NaN)] \<and>
              score st = delta_sma20 c + delta_sma50 c - 1.5 + delta_cross p c +
                delta_rsi c + delta_macd c + delta_macd_crossover p c + delta_bollinger c +
                delta_stochastic c + delta_volume rows c) \<and>
           (RSI c = NaN \<longrightarrow>
              lookup s ''rsi'' = Some [(''signal'', PStr ''neutral''), (''value'', PFloat NaN)] \<and>
              score st = delta_sma20 c + delta_sma50 c + delta_sma200 c + delta_cross p c +
                delta_macd c + delta_macd_crossover p c + delta_bollinger c +
                delta_stochastic c + delta_volume rows c)"
proof -
  from generate_signals_Some [OF assms(1)] obtain st
    where ne: "rows \<noteq> []" and e: "evaluate rows symb = Inr st" and s: "s = finish st"
    by auto
  from e have r: "run_rules rows p c
             (initial symb (fl_round2 (Close c)) (change_of rows)) = Inr st"
    by (simp add: evaluate_run_rules [OF ne] assms(2,3))
  have n: "signal_count st = 8 + crossovers p c"
    using evaluate_Inr(2) [OF e] by (simp add: assms(2,3))
  have z: "normalized_score st =
             max (min (score st / (real (8 + crossovers p c) * 0.75)) 2) (- 2)"
    unfolding normalized_score_def n by simp
  have d: "score st = delta_sma20 c + delta_sma50 c + delta_sma200 c + delta_cross p c +
             delta_rsi c + delta_macd c + delta_macd_crossover p c + delta_bollinger c +
             delta_stochastic c + delta_volume rows c"
    using evaluate_deltas [OF e] by (simp only: assms(2,3))
  have l: "SMA20 c = NaN \<longrightarrow>
             lookup s ''sma20'' = Some [(''signal'', PStr ''bearish''), (''value'', PFloat NaN)]"
    "SMA50 c = NaN \<longrightarrow>
             lookup s ''sma50'' = Some [(''signal'', PStr ''bearish''), (''value'', PFloat NaN)]"
    "SMA200 c = NaN \<longrightarrow>
             lookup s ''sma200'' = Some [(''signal'', PStr ''bearish''), (''value'', PFloat NaN)]"
    "RSI c = NaN \<longrightarrow>
             lookup s ''rsi'' = Some [(''signal'', PStr ''neutral''), (''value'', PFloat NaN)]"
    by (simp_all add: s finish_facts run_rules_lookup [OF r] undefined_rule_entries)
  have u: "SMA20 c = NaN \<longrightarrow> delta_sma20 c = - 0.5"
    "SMA50 c = NaN \<longrightarrow> delta_sma50 c = - 1"
    "SMA200 c = NaN \<longrightarrow> delta_sma200 c = - 1.5"
    "RSI c = NaN \<longrightarrow> delta_rsi c = 0"
    by (simp_all add: undefined_deltas)
  show ?thesis
  proof (intro exI [of _ st] conjI impI)
    show "evaluate rows symb = Inr st" by (rule e)
    show "s = finish st" by (rule s)
    show "signal_count st = 8 + crossovers p c" by (rule n)
    show "normalized_score st =
             max (min (score st / (real (8 + crossovers p c) * 0.75)) 2) (- 2)" by (rule z)
    show "score st = delta_sma20 c + delta_sma50 c + delta_sma200 c + delta_cross p c +
             delta_rsi c + delta_macd c + delta_macd_crossover p c + delta_bollinger c +
             delta_stochastic c + delta_volume rows c" by (rule d)
  qed (use l u d in simp_all)
qed

lemma example_deltas:
  "delta_sma20 example_bar = - 0.5" "delta_sma50 example_bar = - 1"
  "delta_sma200 example_bar = - 1.5" "delta_cross None example_bar = 0"
  "delta_rsi example_bar = 0" "delta_macd example_bar = - 1"
  "delta_macd_crossover None example_bar = 0" "delta_bollinger example_bar = 0"
  "delta_stochastic example_bar = 0" "delta_volume [example_bar] example_bar = 0"
  "crossovers None example_bar = 0"
  by (simp_all add: crossovers_def macd_crossover_fires_def delta_sma20_def delta_sma50_def delta_sma200_def delta_cross_def
      delta_rsi_def delta_macd_def delta_macd_crossover_def delta_bollinger_def
      delta_stochastic_def delta_volume_def golden_fires_def death_fires_def previous_of_def
      example_bar_fields bb_position_def volume_ratio_def tail_def mean_def fl_gt_def
      fl_sub_def RSI_OVERSOLD_def RSI_OVERBOUGHT_def)

text \<open>
  The series of one bar has all four indicators undefined: the score is -4, of which
  -0.5, -1 and -1.5 come from the three moving averages, and the count is 8.
\<close>

theorem undefined_indicator_not_skipped_witness:
  "generate_signals (Some [example_bar]) ''AAPL'' = Inr (Some example_signal) \<and>
   example_bar = last [example_bar] \<and> None = previous_of [example_bar] \<and>
   SMA20 example_bar = NaN \<and> SMA50 example_bar = NaN \<and> SMA200 example_bar = NaN \<and>
   RSI example_bar = NaN \<and>
   evaluate [example_bar] ''AAPL'' = Inr example_scoring \<and>
   example_signal = finish example_scoring \<and>
   signal_count example_scoring = 8 \<and> score example_scoring = - 4 \<and>
   score example_scoring = - 0.5 + delta_sma50 example_bar + delta_sma200 example_bar +
     delta_cross None example_bar + delta_rsi example_bar + delta_macd example_bar +
     delta_macd_crossover None example_bar + delta_bollinger example_bar +
     delta_stochastic example_bar + delta_volume [example_bar] example_bar \<and>
   lookup example_signal ''sma20'' = Some [(''signal'', PStr ''bearish''), (''value'', PFloat NaN)] \<and>
   lookup example_signal ''rsi'' = Some [(''signal'', PStr ''neutral''), (''value'', PFloat NaN)]"
proof -
  have h: "example_bar = last [example_bar]" "None = previous_of [example_bar]"
    by (simp_all add: previous_of_def)
  from undefined_indicator_not_skipped [OF example_generate h]
  show ?thesis
    using example_generate h
    by (auto simp add: example_evaluate example_bar_fields example_deltas)
qed

section \<open>The Bollinger rule\<close>










section \<open>The tracking list is a set\<close>

lemma tracked_distinct:
  assumes "tracked syms"
  shows "distinct syms"
  using assms
proof (induction rule: tracked.induct)
  case configured
  show ?case by (simp add: STOCK_SYMBOLS_def)
next
  case (added syms symb syms' r)
  then show ?case by (auto simp add: add_stock_def split: if_splits)
next
  case (removed syms symb syms' r)
  then show ?case
    by (auto simp add: remove_stock_def list_remove_def bind_err_simps split: if_splits)
qed

text \<open>
  Claim C9: on every list that the two functions can produce from the configured one,
  \<^verbatim>\<open>add_stock\<close> of a symbol that is present and \<^verbatim>\<open>remove_stock\<close> of a symbol that is
  absent leave the list unchanged and return False without raising; otherwise
  \<^verbatim>\<open>add_stock\<close> inserts the symbol and \<^verbatim>\<open>remove_stock\<close> deletes it, and they return
  True.
\<close>

theorem watchlist_operations:
  assumes "tracked syms"
  shows "(symb \<in> set syms \<longrightarrow> add_stock symb syms = Inr (syms, False)) \<and>
         (symb \<notin> set syms \<longrightarrow> remove_stock symb syms = Inr (syms, False)) \<and>
         (symb \<notin> set syms \<longrightarrow>
            (\<exists>syms'. add_stock symb syms = Inr (syms', True) \<and>
                     set syms' = insert symb (set syms))) \<and>
         (symb \<in> set syms \<longrightarrow>
            (\<exists>syms'. remove_stock symb syms = Inr (syms', True) \<and>
                     set syms' = set syms - {symb}))"
  using tracked_distinct [OF assms]
  by (auto simp add: add_stock_def remove_stock_def list_remove_def bind_err_simps)

text \<open>On the configured list, with AAPL present and IBM absent.\<close>

theorem watchlist_operations_witness:
  "tracked STOCK_SYMBOLS \<and> ''AAPL'' \<in> set STOCK_SYMBOLS \<and> ''IBM'' \<notin> set STOCK_SYMBOLS \<and>
   add_stock ''AAPL'' STOCK_SYMBOLS = Inr (STOCK_SYMBOLS, False) \<and>
   remove_stock ''IBM'' STOCK_SYMBOLS = Inr (STOCK_SYMBOLS, False) \<and>
   add_stock ''IBM'' STOCK_SYMBOLS = Inr (STOCK_SYMBOLS @ [''IBM''], True) \<and>
   remove_stock ''AAPL'' STOCK_SYMBOLS =
     Inr ([''MSFT'', ''GOOGL'', ''AMZN'', ''META'', ''TSLA'', ''NVDA''], True)"
proof -
  have t: "tracked STOCK_SYMBOLS"
    by (rule configured)
  have e: "''AAPL'' \<in> set STOCK_SYMBOLS \<and> ''IBM'' \<notin> set STOCK_SYMBOLS \<and>
     add_stock ''IBM'' STOCK_SYMBOLS = Inr (STOCK_SYMBOLS @ [''IBM''], True) \<and>
     remove_stock ''AAPL'' STOCK_SYMBOLS =
       Inr ([''MSFT'', ''GOOGL'', ''AMZN'', ''META'', ''TSLA'', ''NVDA''], True)"
    by (simp add: STOCK_SYMBOLS_def add_stock_def remove_stock_def list_remove_def
        bind_err_simps)
  show ?thesis
    using t e watchlist_operations [OF t, of "''AAPL''"]
      watchlist_operations [OF t, of "''IBM''"]
    by blast
qed

section \<open>Properties of calculate_technical_indicators\<close>

lemma calculate_technical_indicators_None:
  "calculate_technical_indicators lib data = Inr None \<longleftrightarrow> data = None \<or> data = Some []"
  by (auto simp add: calculate_technical_indicators_def bind_err_def Let_def
      split: option.splits sum.splits)

lemma calculate_technical_indicators_Some:
  assumes "df \<noteq> []" and "\<not> list_ex isl (library_calls lib df)"
  shows "\<exists>rows. calculate_technical_indicators lib (Some df) = Inr (Some rows) \<and>
                length rows = length df \<and> map bar_of rows = df"
  using assms
  by (auto simp add: calculate_technical_indicators_def bind_err_def Let_def library_calls_def
      bar_of_def isl_def intro!: nth_equalityI split: sum.splits)

lemma quiet_ta_calls:
  "library_calls quiet_ta df = replicate 16 (Inr (map (\<lambda>x. NaN) df))"
  by (simp add: library_calls_def quiet_ta_def Let_def numeral_eq_Suc)

lemma quiet_ta_ok: "\<not> list_ex isl (library_calls quiet_ta df)"
  by (simp add: quiet_ta_calls list_ex_iff)

text \<open>
  Claim C2 states that \<^verbatim>\<open>calculate_technical_indicators\<close> fails exactly on malformed
  input: timestamps that do not ascend, a price that is not positive, or an empty series.
  The function tests only for an absent or empty frame. A series of 250 bars with
  descending timestamps and negative prices is annotated as any other, here with a
  library that does not raise.
\<close>

theorem engine_validation_counterexample:
  "spec_malformed bad_series \<and>
   \<not> engine_fails (calculate_technical_indicators quiet_ta (Some bad_series))"
proof -
  have "spec_malformed bad_series"
    by (auto simp add: spec_malformed_def bad_series_def list_ex_iff fl_gt_def
        intro: exI [of _ 0])
  moreover have "bad_series \<noteq> []"
    by (simp add: bad_series_def)
  then have "\<exists>rows. calculate_technical_indicators quiet_ta (Some bad_series) = Inr (Some rows)"
    using calculate_technical_indicators_Some [of bad_series quiet_ta] quiet_ta_ok
    by blast
  then have "\<not> engine_fails (calculate_technical_indicators quiet_ta (Some bad_series))"
    by (auto simp add: engine_fails_def)
  ultimately show ?thesis by blast
qed

text \<open>
  Claim C2, amended: \<^verbatim>\<open>calculate_technical_indicators\<close> validates nothing and has no
  InvalidSeries error. It gives no result, returning \<^verbatim>\<open>None\<close> without raising, exactly
  for an absent or empty frame. It checks neither timestamps nor prices: every frame
  that is not empty, malformed or not, for which the indicator library returns its
  columns is annotated, with the same length and the same bars in the same order.
\<close>

theorem engine_validates_nothing:
  "(calculate_technical_indicators lib data = Inr None \<longleftrightarrow> data = None \<or> data = Some []) \<and>
   (\<forall>df. data = Some df \<and> df \<noteq> [] \<and> \<not> list_ex isl (library_calls lib df) \<longrightarrow>
      (\<exists>rows. calculate_technical_indicators lib data = Inr (Some rows) \<and>
              length rows = length df \<and> map bar_of rows = df))"
  using calculate_technical_indicators_None [of lib data]
    calculate_technical_indicators_Some [of _ lib]
  by blast

text \<open>The empty frame, and the malformed series of 250 bars.\<close>

theorem engine_validates_nothing_witness:
  "calculate_technical_indicators quiet_ta (Some []) = Inr None \<and>
   bad_series \<noteq> [] \<and> length bad_series = 250 \<and>
   \<not> list_ex isl (library_calls quiet_ta bad_series) \<and>
   (\<exists>rows. calculate_technical_indicators quiet_ta (Some bad_series) = Inr (Some rows) \<and>
           length rows = length bad_series \<and> map bar_of rows = bad_series)"
proof -
  have n: "bad_series \<noteq> []" "length bad_series = 250"
    by (simp_all add: bad_series_def)
  have q: "\<not> list_ex isl (library_calls quiet_ta bad_series)"
    by (rule quiet_ta_ok)
  show ?thesis
    using n q engine_validates_nothing [of quiet_ta "Some []"]
      engine_validates_nothing [of quiet_ta "Some bad_series"]
    by simp
qed

end
